theory Spec2Isabelle
  imports Main "HOL-Library.AList" "HOL-Library.Sublist"
begin

section \<open>JavaScript values and objects\<close>

text \<open>
  The engine (\<^verbatim>\<open>src/src/api.ts\<close>, class \<^verbatim>\<open>Templer\<close>) keeps all of its state in plain
  JavaScript objects used as dictionaries. A dictionary is modelled as an association list with
  unique keys, in insertion order (the order of \<^verbatim>\<open>for ... in\<close> and \<^verbatim>\<open>Object.values\<close> for
  string keys): \<open>d[k]\<close> is \<open>lookup\<close>, \<open>d[k] = v\<close> is \<open>assign\<close>, \<open>delete d[k]\<close> is \<open>remove\<close>,
  \<open>{...a, ...b}\<close> is \<open>spread\<close>. The dictionaries of the engine's own state are keyed by page
  names, paths and patterns; these are taken to differ from the names of the properties that
  every object inherits from \<^verbatim>\<open>Object.prototype\<close>, so \<open>lookup\<close> reads own properties only.
  Where the key is chosen by a script or a template (a read of the global data, of a front
  matter entry, of a thrown value) the read goes through \<open>read_prop\<close>, which falls back on the
  inherited properties.

  Values of type \<^verbatim>\<open>unknown\<close> are \<open>jsval\<close>. Numbers are the integers (time stamps in
  milliseconds) and \<open>NaN\<close>. \<open>JError message stack\<close> is an instance of \<^verbatim>\<open>Error\<close>.
  \<open>JProxy target name\<close> is the \<^verbatim>\<open>Proxy\<close> object that
  \<^verbatim>\<open>getGlobalDataAccessProxy(name)\<close> builds around the global data \<open>target\<close>.
  \<open>JInherited key\<close> is what \<^verbatim>\<open>Object.prototype\<close> holds under \<open>key\<close>: a function, or for
  \<^verbatim>\<open>__proto__\<close> the prototype object itself.
\<close>

datatype jsval =
    JUndefined
  | JNull
  | JBool bool
  | JNum int
  | JNaN
  | JStr string
  | JObj "(string \<times> jsval) list"
  | JError string string
  | JProxy "(string \<times> jsval) list" string
  | JInherited string

text \<open>What \<^verbatim>\<open>if (v)\<close> and \<^verbatim>\<open>!v\<close> test.\<close>

fun truthy :: "jsval \<Rightarrow> bool" where
  "truthy JUndefined = False"
| "truthy JNull = False"
| "truthy (JBool b) = b"
| "truthy (JNum n) = (n \<noteq> 0)"
| "truthy JNaN = False"
| "truthy (JStr s) = (s \<noteq> [])"
| "truthy (JObj _) = True"
| "truthy (JError _ _) = True"
| "truthy (JProxy _ _) = True"
| "truthy (JInherited _) = True"

type_synonym 'v dict = "(string \<times> 'v) list"

definition lookup :: "'v dict \<Rightarrow> string \<Rightarrow> 'v option" where
  "lookup d k = map_of d k"

definition assign :: "'v dict \<Rightarrow> string \<Rightarrow> 'v \<Rightarrow> 'v dict" where
  "assign d k v = AList.update k v d"

definition remove :: "'v dict \<Rightarrow> string \<Rightarrow> 'v dict" where
  "remove d k = AList.delete k d"

definition spread :: "'v dict \<Rightarrow> 'v dict \<Rightarrow> 'v dict" where
  "spread a b = fold (\<lambda>(k, v) acc. AList.update k v acc) b a"

text \<open>The names of the properties of \<^verbatim>\<open>Object.prototype\<close>, which every plain object inherits.\<close>

definition object_prototype_keys :: "string list" where
  "object_prototype_keys =
     [''constructor'', ''__defineGetter__'', ''__defineSetter__'', ''hasOwnProperty'',
      ''__lookupGetter__'', ''__lookupSetter__'', ''isPrototypeOf'', ''propertyIsEnumerable'',
      ''toString'', ''valueOf'', ''__proto__'', ''toLocaleString'']"

text \<open>Reading a property \<^verbatim>\<open>d[k]\<close> of a plain object of unknown values: the own property, else
  the inherited one, else \<^verbatim>\<open>undefined\<close>.\<close>

definition read_prop :: "jsval dict \<Rightarrow> string \<Rightarrow> jsval" where
  "read_prop d k =
     (case lookup d k of
        Some v \<Rightarrow> v
      | None \<Rightarrow> if k \<in> set object_prototype_keys then JInherited k else JUndefined)"

text \<open>\<^verbatim>\<open>new Error(msg)\<close>: the first line of the stack names the error.\<close>

definition mkError :: "string \<Rightarrow> jsval" where
  "mkError msg = JError msg (''Error: '' @ msg)"

definition mkTypeError :: "string \<Rightarrow> jsval" where
  "mkTypeError msg = JError msg (''TypeError: '' @ msg)"

text \<open>\<^verbatim>\<open>v.key\<close> for a value that is neither \<^verbatim>\<open>undefined\<close> nor \<^verbatim>\<open>null\<close>.\<close>

fun field :: "jsval \<Rightarrow> string \<Rightarrow> jsval" where
  "field (JObj d) key = read_prop d key"
| "field (JError msg stack) key =
     (if key = ''message'' then JStr msg else if key = ''stack'' then JStr stack else JUndefined)"
| "field v key = JUndefined"

text \<open>A call either returns or throws; either way the state it has mutated so far stays mutated,
  so every stateful operation returns its outcome together with the state.\<close>

datatype 'a outcome = Ok 'a | Threw jsval

section \<open>The engine state\<close>

type_synonym Code = string
type_synonym PageName = string
type_synonym Path = string

text \<open>\<^verbatim>\<open>Dependencies = {[key: PageName]: boolean}\<close>: every value ever stored is \<^verbatim>\<open>true\<close>, so the
  object is the list of its keys.\<close>

type_synonym Dependencies = "PageName list"
type_synonym DependencyTree = "Dependencies dict"
type_synonym PageData = "jsval dict"
type_synonym FrontMatterEntries = "jsval dict"

definition dep_add :: "PageName \<Rightarrow> Dependencies \<Rightarrow> Dependencies" where
  "dep_add p deps = (if p \<in> set deps then deps else deps @ [p])"

definition dep_del :: "PageName \<Rightarrow> Dependencies \<Rightarrow> Dependencies" where
  "dep_del p deps = filter (\<lambda>q. q \<noteq> p) deps"

datatype TriggerReason = Added | Modified | Deleted

record ToGenerateData =
  name :: PageName
  generate :: string
  triggeredBy :: string
  reason :: TriggerReason

record CacheItem =
  expires :: jsval
  data :: jsval

type_synonym CacheData = "CacheItem dict"

record FilesWritten =
  source :: string
  path :: Path
  time :: string

record OutputData =
  html :: "FilesWritten list"
  entry :: "FilesWritten list"
  lib :: "FilesWritten list"
  json :: "FilesWritten list"
  outData :: "jsval dict"

text \<open>A compiled EJS template is a function of the render data and of the include callback.
  It is modelled by the parts it emits for given render data: literal text, and calls
  \<^verbatim>\<open>include(name, data)\<close> of the callback, whose result is spliced in.\<close>

datatype tpart = Text string | Include string "PageData option"

type_synonym CompiledTemplate = "PageData \<Rightarrow> tpart list"

record TemplerData =
  generateScripts :: "Code dict"
  generateScriptRefs :: "string dict"
  entryScripts :: "Code dict"
  templateDepTree :: DependencyTree
  pathDepTree :: DependencyTree
  wildDepTree :: DependencyTree
  globalDeps :: Dependencies
  frontMatter :: "FrontMatterEntries dict"
  templates :: "CompiledTemplate dict"
  toGenerate :: "ToGenerateData dict"
  globalData :: PageData
  cache :: "CacheData dict"
  outputData :: OutputData
  errorCount :: nat

definition initial_state :: TemplerData where
  "initial_state = \<lparr> generateScripts = [], generateScriptRefs = [], entryScripts = [],
     templateDepTree = [], pathDepTree = [], wildDepTree = [], globalDeps = [],
     frontMatter = [], templates = [], toGenerate = [], globalData = [], cache = [],
     outputData = \<lparr> html = [], entry = [], lib = [], json = [], outData = [] \<rparr>,
     errorCount = 0 \<rparr>"

subsection \<open>Helpers\<close>

text \<open>\<^verbatim>\<open>markDependsOn(template, dependency)\<close>.\<close>

definition markDependsOn ::
  "string \<Rightarrow> string \<Rightarrow> 'a TemplerData_scheme \<Rightarrow> 'a TemplerData_scheme" where
  "markDependsOn template dependency st =
     (let tree = (case lookup (templateDepTree st) dependency of
                    None \<Rightarrow> assign (templateDepTree st) dependency []
                  | Some _ \<Rightarrow> templateDepTree st)
      in st\<lparr>templateDepTree :=
           assign tree dependency
             (dep_add template (case lookup tree dependency of Some d \<Rightarrow> d | None \<Rightarrow> []))\<rparr>)"

text \<open>\<^verbatim>\<open>getCacheName(name)\<close>: the body after \<^verbatim>\<open>return "shared"\<close> is commented out.\<close>

definition getCacheName :: "PageName \<Rightarrow> string" where
  "getCacheName pageName = ''shared''"

text \<open>\<^verbatim>\<open>getGenerateScript(name)\<close>: the page's own script, or the one it refers to, or \<^verbatim>\<open>""\<close>.
  A stored script is used when it is truthy, that is non-empty.\<close>

definition getGenerateScript :: "PageName \<Rightarrow> 'a TemplerData_scheme \<Rightarrow> Code" where
  "getGenerateScript pageName st =
     (let own = (case lookup (generateScripts st) pageName of Some c \<Rightarrow> c | None \<Rightarrow> [])
      in if own \<noteq> [] then own
         else (case lookup (generateScriptRefs st) pageName of
                 Some r \<Rightarrow>
                   (if r \<noteq> []
                    then (case lookup (generateScripts st) r of Some c \<Rightarrow> c | None \<Rightarrow> [])
                    else [])
               | None \<Rightarrow> []))"

subsection \<open>Removing a template\<close>

text \<open>\<^verbatim>\<open>processDeletedTemplatePromise(template)\<close>, statement by statement. The two loops delete the
  page from every entry of the path and the glob index; no statement touches
  \<^verbatim>\<open>templateDepTree\<close> or \<^verbatim>\<open>templates\<close>.\<close>

definition processDeletedTemplatePromise ::
  "string \<Rightarrow> 'a TemplerData_scheme \<Rightarrow> 'a TemplerData_scheme" where
  "processDeletedTemplatePromise template st =
     st\<lparr> generateScripts := remove (generateScripts st) template,
         generateScriptRefs := remove (generateScriptRefs st) template,
         entryScripts := remove (entryScripts st) template,
         pathDepTree := map (\<lambda>(key, deps). (key, dep_del template deps)) (pathDepTree st),
         wildDepTree := map (\<lambda>(key, deps). (key, dep_del template deps)) (wildDepTree st),
         globalDeps := dep_del template (globalDeps st),
         frontMatter := remove (frontMatter st) template,
         toGenerate := remove (toGenerate st) template,
         cache := remove (cache st) (getCacheName template),
         outputData := (outputData st)\<lparr> outData := remove (outData (outputData st)) template \<rparr> \<rparr>"

text \<open>Where a page occurs in a dependency index: as a dependent of some key.\<close>

definition dependents_of :: "DependencyTree \<Rightarrow> string \<Rightarrow> Dependencies" where
  "dependents_of tree key = (case lookup tree key of Some d \<Rightarrow> d | None \<Rightarrow> [])"

definition in_tree :: "PageName \<Rightarrow> DependencyTree \<Rightarrow> bool" where
  "in_tree p tree = list_ex (\<lambda>(key, deps). p \<in> set deps) tree"

subsection \<open>The instrumented global-data accessor\<close>

text \<open>\<^verbatim>\<open>getGlobalDataAccessProxy(name)\<close> wraps the global data object of the moment in a proxy.
  \<open>proxy_get\<close> is the handler's \<^verbatim>\<open>get\<close> trap for a read of property \<open>key\<close>: the test is
  \<^verbatim>\<open>!state.globalData[key]\<close> on the state's current global data, the value returned is
  \<^verbatim>\<open>Reflect.get\<close> on the proxy's target. Both reads see the inherited properties, so a key
  such as \<^verbatim>\<open>toString\<close> passes the test although the global data does not define it.\<close>

definition getGlobalDataAccessProxy :: "PageName \<Rightarrow> 'a TemplerData_scheme \<Rightarrow> jsval" where
  "getGlobalDataAccessProxy pageName st = JProxy (globalData st) pageName"

fun proxy_get ::
  "jsval \<Rightarrow> string \<Rightarrow> 'a TemplerData_scheme \<Rightarrow> jsval outcome \<times> 'a TemplerData_scheme" where
  "proxy_get (JProxy target pageName) key st =
     (if \<not> truthy (read_prop (globalData st) key)
      then (Threw (mkError (''Accessing undefined global data Element: '' @ key)), st)
      else (Ok (read_prop target key), st\<lparr>globalDeps := dep_add pageName (globalDeps st)\<rparr>))"
| "proxy_get (JObj d) key st = (Ok (read_prop d key), st)"
| "proxy_get v key st = (Ok JUndefined, st)"

text \<open>A read of \<open>key\<close> through the accessor that \<^verbatim>\<open>getGlobalDataAccessProxy(name)\<close> returns.\<close>

definition global_read ::
  "PageName \<Rightarrow> string \<Rightarrow> 'a TemplerData_scheme \<Rightarrow> jsval outcome \<times> 'a TemplerData_scheme" where
  "global_read pageName key st = proxy_get (getGlobalDataAccessProxy pageName st) key st"

section \<open>Scripts, the host platform and the file system\<close>

text \<open>What a generate script can pass to its callbacks. \<^verbatim>\<open>GeneratorPages\<close> is one request or an
  array of them; a response field that is absent is \<open>None\<close> (or \<open>JUndefined\<close>).\<close>

datatype PageGenerateRequest = PageGenerateRequest (req_path: string) (req_data: PageData)

datatype GeneratorPages = OnePage PageGenerateRequest | PageArray "PageGenerateRequest list"

record GeneratorResponse =
  r_cache :: "CacheData option"
  r_siteFiles :: "jsval dict option"
  r_watchFiles :: "Path list option"
  r_watchGlobs :: "string list option"
  r_outData :: jsval
  r_global :: "PageData option"

text \<open>The script text is opaque to the engine: \<^verbatim>\<open>vm.runInThisContext(code)(...)\<close> runs it. What the
  engine sees of a run is the sequence of calls the script makes on the capabilities it was
  handed: \<^verbatim>\<open>resolve(response)\<close>, \<^verbatim>\<open>reject(error)\<close>, \<^verbatim>\<open>generate(pages)\<close>, a read
  \<^verbatim>\<open>inputs.global[key]\<close>, \<^verbatim>\<open>renderTemplate(template, data)\<close>, and a \<^verbatim>\<open>throw\<close> of the script's own.
  \<open>Caught c\<close> is the call \<open>c\<close> made inside a \<^verbatim>\<open>try\<close> block of the script whose \<^verbatim>\<open>catch\<close> swallows
  the exception. The calls of the script body run synchronously and end with the first that
  throws uncaught. The calls that the script makes later, from a callback of its own (a timer, a
  promise), come as one list per callback.\<close>

datatype script_call =
    Resolve "GeneratorResponse option"
  | Reject jsval
  | GeneratePagesCall GeneratorPages
  | ReadGlobal string
  | RenderTemplateCall string PageData
  | Throw jsval
  | Caught script_call

text \<open>The file system is the trace of the mutating calls made on it.\<close>

datatype fs_call = MkdirSync Path | WriteFile Path string

fun call_path :: "fs_call \<Rightarrow> Path" where
  "call_path (MkdirSync p) = p"
| "call_path (WriteFile p d) = p"

text \<open>Everything the engine takes from outside \<^verbatim>\<open>api.ts\<close>: the instance's output directory, the
  imported \<^verbatim>\<open>isRelative\<close> of \<^verbatim>\<open>@danglingdev/shared-ts\<close>, Node's \<^verbatim>\<open>path\<close> functions,
  \<^verbatim>\<open>fs.existsSync\<close> (which may depend on the calls made so far), the clock, JavaScript's
  conversion of a string to a number (\<open>None\<close> is \<^verbatim>\<open>NaN\<close>), \<^verbatim>\<open>JSON.stringify\<close>, the first group of
  \<^verbatim>\<open>SCRIPT_GENERATE_USE_REGEX\<close> matched against a trimmed text, the calls that running a
  script text makes, given the page it runs for and the cache group it is handed, the calls that
  the callbacks which the script has registered make later (one list per callback, in the order
  in which they fire), the instance's input directory, and the text of a file (\<open>None\<close> when
  \<^verbatim>\<open>fs.existsSync\<close> says there is no such file).\<close>

record env =
  outputDir :: string
  isRelative :: "string \<Rightarrow> string \<Rightarrow> bool"
  path_resolve :: "string \<Rightarrow> string"
  path_join :: "string list \<Rightarrow> string"
  path_parse_dir :: "string \<Rightarrow> string"
  existsSync :: "fs_call list \<Rightarrow> Path \<Rightarrow> bool"
  getTime :: int
  getNowDate :: string
  string_to_number :: "string \<Rightarrow> int option"
  JSON_stringify :: "jsval \<Rightarrow> string"
  generate_use_match :: "string \<Rightarrow> string option"
  runInThisContext :: "Code \<Rightarrow> PageName \<Rightarrow> CacheData \<Rightarrow> script_call list"
  callbacksOf :: "Code \<Rightarrow> PageName \<Rightarrow> CacheData \<Rightarrow> script_call list list"
  inputDir :: string
  readFile :: "Path \<Rightarrow> string option"

section \<open>Caching\<close>

text \<open>\<^verbatim>\<open>Number(v)\<close>, as \<^verbatim>\<open>isNaN(v)\<close> and \<^verbatim>\<open>now > v\<close> apply it; \<open>None\<close> is \<^verbatim>\<open>NaN\<close>.\<close>

fun toNumber :: "env \<Rightarrow> jsval \<Rightarrow> int option" where
  "toNumber e JUndefined = None"
| "toNumber e JNull = Some 0"
| "toNumber e (JBool b) = Some (if b then 1 else 0)"
| "toNumber e (JNum n) = Some n"
| "toNumber e JNaN = None"
| "toNumber e (JStr s) = string_to_number e s"
| "toNumber e (JObj _) = None"
| "toNumber e (JError _ _) = None"
| "toNumber e (JProxy _ _) = None"
| "toNumber e (JInherited _) = None"

text \<open>The inner loop of \<^verbatim>\<open>expireCache\<close> over the items of one cache group. It returns the error
  thrown, if any, and the group as the loop left it.\<close>

fun expireGroup :: "env \<Rightarrow> string \<Rightarrow> CacheData \<Rightarrow> jsval option \<times> CacheData" where
  "expireGroup e cacheName [] = (None, [])"
| "expireGroup e cacheName ((itemName, item) # rest) =
     (if truthy (expires item) then
        (case toNumber e (expires item) of
           Some n \<Rightarrow>
             (if getTime e > n
              then expireGroup e cacheName rest
              else (case expireGroup e cacheName rest of
                      (err, rest') \<Rightarrow> (err, (itemName, item) # rest')))
         | None \<Rightarrow>
             (Some (mkError (cacheName @ '' cache item '' @ itemName @ '' expires date is invalid'')),
              (itemName, item) # rest))
      else (case expireGroup e cacheName rest of
              (err, rest') \<Rightarrow> (err, (itemName, item) # rest')))"

text \<open>The outer loop over the cache groups.\<close>

fun expireGroups :: "env \<Rightarrow> CacheData dict \<Rightarrow> jsval option \<times> CacheData dict" where
  "expireGroups e [] = (None, [])"
| "expireGroups e ((cacheName, cacheGroup) # groups) =
     (case expireGroup e cacheName cacheGroup of
        (Some err, cacheGroup') \<Rightarrow> (Some err, (cacheName, cacheGroup') # groups)
      | (None, cacheGroup') \<Rightarrow>
          (case expireGroups e groups of
             (err, groups') \<Rightarrow> (err, (cacheName, cacheGroup') # groups')))"

definition expireCache :: "env \<Rightarrow> 'a TemplerData_scheme \<Rightarrow> unit outcome \<times> 'a TemplerData_scheme" where
  "expireCache e st =
     (case expireGroups e (cache st) of
        (Some err, c) \<Rightarrow> (Threw err, st\<lparr>cache := c\<rparr>)
      | (None, c) \<Rightarrow> (Ok (), st\<lparr>cache := c\<rparr>))"

text \<open>An entry whose \<^verbatim>\<open>expires\<close> is a time stamp that lies in the past.\<close>

definition past_expiry :: "env \<Rightarrow> CacheItem \<Rightarrow> bool" where
  "past_expiry e item =
     (truthy (expires item) \<and>
      (case toNumber e (expires item) of Some n \<Rightarrow> getTime e > n | None \<Rightarrow> False))"

text \<open>An entry whose \<^verbatim>\<open>expires\<close> is set (truthy) and is not a number after conversion.\<close>

definition invalid_expiry :: "env \<Rightarrow> CacheItem \<Rightarrow> bool" where
  "invalid_expiry e item = (truthy (expires item) \<and> toNumber e (expires item) = None)"

definition cache_items :: "CacheData dict \<Rightarrow> CacheItem list" where
  "cache_items c = concat (map (\<lambda>(cacheName, cacheGroup). map snd cacheGroup) c)"

text \<open>A cache group, and a cache, without the entries whose \<^verbatim>\<open>expires\<close> lies in the past: the
  other entries stay, in their order.\<close>

definition purge_group :: "env \<Rightarrow> CacheData \<Rightarrow> CacheData" where
  "purge_group e g = filter (\<lambda>(itemName, item). \<not> past_expiry e item) g"

definition purge :: "env \<Rightarrow> CacheData dict \<Rightarrow> CacheData dict" where
  "purge e c = map (\<lambda>(cacheName, g). (cacheName, purge_group e g)) c"

section \<open>Paths\<close>

text \<open>\<^verbatim>\<open>fixPath(path)\<close> trims one trailing slash.\<close>

definition fixPath :: "string \<Rightarrow> string" where
  "fixPath p = (if p \<noteq> [] \<and> last p = CHR ''/'' then butlast p else p)"

text \<open>\<^verbatim>\<open>s.split(c)\<close> for a one-character separator: never empty, \<^verbatim>\<open>"".split("/")\<close> is \<^verbatim>\<open>[""]\<close>.\<close>

fun split_on :: "char \<Rightarrow> string \<Rightarrow> string list" where
  "split_on c [] = [] # []"
| "split_on c (x # xs) =
     (if x = c then [] # split_on c xs
      else (case split_on c xs of w # ws \<Rightarrow> (x # w) # ws | [] \<Rightarrow> [x] # []))"

text \<open>\<^verbatim>\<open>getEntryScriptName(path)\<close>.\<close>

definition getEntryScriptName :: "string \<Rightarrow> string" where
  "getEntryScriptName p =
     (let parts = split_on (CHR ''/'') p
      in if p = [] then ''main'' else if parts \<noteq> [] then last parts else ''main'')"

text \<open>\<^verbatim>\<open>(generate.match(/\*/g) || []).length\<close>.\<close>

definition pathStars :: "string \<Rightarrow> nat" where
  "pathStars g = length (filter (\<lambda>c. c = CHR ''*'') g)"

text \<open>\<^verbatim>\<open>generate.replace(/\*/, fragment)\<close> replaces the first star. The second argument of
  \<^verbatim>\<open>String.prototype.replace\<close> is a replacement pattern: in it \<^verbatim>\<open>$$\<close> stands for a dollar sign,
  \<^verbatim>\<open>$&\<close> for the matched text, \<^verbatim>\<open>$`\<close> for the text before the match and \<^verbatim>\<open>$'\<close> for the text
  after it; the regular expression has no group, so every other dollar sign stands for itself.\<close>

fun expand_replacement :: "string \<Rightarrow> string \<Rightarrow> string \<Rightarrow> string \<Rightarrow> string" where
  "expand_replacement before matched after [] = []"
| "expand_replacement before matched after [c] = [c]"
| "expand_replacement before matched after (c # d # ds) =
     (if c = CHR ''$'' then
        (if d = CHR ''$'' then CHR ''$'' # expand_replacement before matched after ds
         else if d = CHR ''&'' then matched @ expand_replacement before matched after ds
         else if d = CHR 0x60 then before @ expand_replacement before matched after ds
         else if d = CHR 0x27 then after @ expand_replacement before matched after ds
         else c # expand_replacement before matched after (d # ds))
      else c # expand_replacement before matched after (d # ds))"

definition replace_star :: "string \<Rightarrow> string \<Rightarrow> string" where
  "replace_star g fragment =
     (let before = takeWhile (\<lambda>c. c \<noteq> CHR ''*'') g;
          rest = dropWhile (\<lambda>c. c \<noteq> CHR ''*'') g
      in case rest of
           [] \<Rightarrow> g
         | star # after \<Rightarrow> before @ expand_replacement before [star] after fragment @ after)"

section \<open>Rendering\<close>

text \<open>An entry of the front matter that the source casts \<^verbatim>\<open>as string\<close> and tests for truth
  (\<^verbatim>\<open>wrapper\<close>, \<^verbatim>\<open>generate\<close>): the string when it is a non-empty string. Front matter of other
  types under these keys is outside the model and reads as absent.\<close>

definition string_entry :: "FrontMatterEntries \<Rightarrow> string \<Rightarrow> string option" where
  "string_entry fm key =
     (case read_prop fm key of JStr s \<Rightarrow> if s \<noteq> [] then Some s else None | _ \<Rightarrow> None)"

text \<open>\<^verbatim>\<open>this.state.frontMatter[page]?.wrapper\<close>.\<close>

definition wrapper_of :: "'a TemplerData_scheme \<Rightarrow> PageName \<Rightarrow> string option" where
  "wrapper_of st page =
     (case lookup (frontMatter st) page of
        None \<Rightarrow> None
      | Some fm \<Rightarrow> string_entry fm ''wrapper'')"

text \<open>The \<^verbatim>\<open>while\<close> loop of \<^verbatim>\<open>renderRecursive\<close> that follows the wrapper references from
  \<open>wrapCheck\<close>. Every turn marks \<open>current\<close>, the page whose chain is being resolved, as depending
  on the wrapper found, and pushes the page just left. A cycle of wrappers never leaves the loop:
  that is \<open>None\<close>, when the fuel is used up.\<close>

fun wrapLoop ::
  "nat \<Rightarrow> string \<Rightarrow> string \<Rightarrow> string \<Rightarrow> string list \<Rightarrow> 'a TemplerData_scheme \<Rightarrow>
   (string \<times> string list \<times> 'a TemplerData_scheme) option" where
  "wrapLoop fuel current wrapCheck wrapper wrapStack st =
     (case wrapper_of st wrapCheck of
        None \<Rightarrow> Some (wrapper, wrapStack, st)
      | Some w \<Rightarrow>
          (case fuel of
             0 \<Rightarrow> None
           | Suc n \<Rightarrow> wrapLoop n current w w (wrapStack @ [wrapCheck]) (markDependsOn current w st)))"

text \<open>\<^verbatim>\<open>renderRecursive(parent, wrapStack, passedData, progress, current, includeData)\<close>, and the
  run of the compiled template it ends with (\<open>renderParts\<close>), which calls back for every include.
  The wrapper stack is a JavaScript array shared by reference between a call and the includes of
  the template it renders: \<^verbatim>\<open>_body\<close> pops it in place, any other include starts a new array. So
  each call returns the stack as it leaves it. \<^verbatim>\<open>progress\<close> only feeds the log and is left out.
  A missing template is a \<^verbatim>\<open>TypeError\<close> (calling \<^verbatim>\<open>undefined\<close>). \<open>None\<close>: the fuel is used up.\<close>

fun renderRecursive ::
  "nat \<Rightarrow> string \<Rightarrow> string list \<Rightarrow> PageData \<Rightarrow> string \<Rightarrow> PageData option \<Rightarrow>
   'a TemplerData_scheme \<Rightarrow> ((string \<times> string list) outcome \<times> 'a TemplerData_scheme) option"
and renderParts ::
  "nat \<Rightarrow> string \<Rightarrow> string list \<Rightarrow> PageData \<Rightarrow> tpart list \<Rightarrow>
   'a TemplerData_scheme \<Rightarrow> ((string \<times> string list) outcome \<times> 'a TemplerData_scheme) option"
where
  "renderRecursive 0 parent wrapStack passedData current includeData st = None"
| "renderRecursive (Suc n) parent wrapStack passedData current includeData st =
     (if current = ''_body'' then
        (if wrapStack = [] then
           Some (Threw (mkError (''Wrapper '' @ parent @ '' was not wrapping anything'')), st)
         else
           (let current' = last wrapStack;
                wrapStack' = butlast wrapStack;
                renderData = spread (spread passedData
                    (case lookup (frontMatter st) current' of Some fm \<Rightarrow> fm | None \<Rightarrow> []))
                    (case includeData of Some d \<Rightarrow> d | None \<Rightarrow> [])
            in case lookup (templates st) current' of
                 None \<Rightarrow> Some (Threw (mkTypeError ''this.state.templates[current] is not a function''), st)
               | Some t \<Rightarrow> renderParts n parent wrapStack' renderData (t renderData) st))
      else
        (case wrapLoop n current current current [] (markDependsOn parent current st) of
           None \<Rightarrow> None
         | Some (current', wrapStack', st') \<Rightarrow>
             (let renderData = spread (spread passedData
                    (case lookup (frontMatter st') current' of Some fm \<Rightarrow> fm | None \<Rightarrow> []))
                    (case includeData of Some d \<Rightarrow> d | None \<Rightarrow> [])
              in case lookup (templates st') current' of
                   None \<Rightarrow> Some (Threw (mkTypeError ''this.state.templates[current] is not a function''), st')
                 | Some t \<Rightarrow>
                     (case renderParts n parent wrapStack' renderData (t renderData) st' of
                        None \<Rightarrow> None
                      | Some (Threw err, st'') \<Rightarrow> Some (Threw err, st'')
                      | Some (Ok (out, _), st'') \<Rightarrow> Some (Ok (out, wrapStack), st'')))))"
| "renderParts n parent wrapStack renderData [] st = Some (Ok ([], wrapStack), st)"
| "renderParts n parent wrapStack renderData (Text s # parts) st =
     (case renderParts n parent wrapStack renderData parts st of
        None \<Rightarrow> None
      | Some (Threw err, st') \<Rightarrow> Some (Threw err, st')
      | Some (Ok (out, wrapStack'), st') \<Rightarrow> Some (Ok (s @ out, wrapStack'), st'))"
| "renderParts n parent wrapStack renderData (Include current includeData # parts) st =
     (case renderRecursive n parent wrapStack renderData current includeData st of
        None \<Rightarrow> None
      | Some (Threw err, st') \<Rightarrow> Some (Threw err, st')
      | Some (Ok (out, wrapStack'), st') \<Rightarrow>
          (case renderParts n parent wrapStack' renderData parts st' of
             None \<Rightarrow> None
           | Some (Threw err, st'') \<Rightarrow> Some (Threw err, st'')
           | Some (Ok (out', wrapStack''), st'') \<Rightarrow> Some (Ok (out @ out', wrapStack''), st'')))"

section \<open>Writing output\<close>

text \<open>The engine together with the file system it writes to, the two variables that one call
  of \<^verbatim>\<open>generatePages()\<close> closes over (the count \<^verbatim>\<open>toRender\<close> of renders still to settle, and how
  often the promise's \<^verbatim>\<open>resolve()\<close> was called), and the callbacks that scripts have registered
  and that have not fired yet: each with the request whose closures (\<^verbatim>\<open>resolve\<close>, \<^verbatim>\<open>reject\<close>,
  \<^verbatim>\<open>generate\<close>, \<^verbatim>\<open>inputs\<close>) it holds, the accessor built for the request, and the request's count
  \<^verbatim>\<open>rendered\<close>.\<close>

type_synonym pending = "ToGenerateData \<times> jsval \<times> nat \<times> script_call list list"

record engine = TemplerData +
  fs :: "fs_call list"
  toRender :: int
  resolved :: nat
  callbacks :: "pending list"

text \<open>\<^verbatim>\<open>safeOutputCheck(func, outPath, path, ...args)\<close>: the check, then the call of \<open>func\<close>.\<close>

definition safeOutputCheck ::
  "env \<Rightarrow> (Path \<Rightarrow> fs_call) \<Rightarrow> string \<Rightarrow> Path \<Rightarrow> engine \<Rightarrow> unit outcome \<times> engine" where
  "safeOutputCheck e func outPath p st =
     (if \<not> isRelative e outPath p
      then (Threw (mkError (''Trying to write '' @ p @ '' which is outside of '' @ outPath)), st)
      else (Ok (), st\<lparr>fs := fs st @ [func p]\<rparr>))"

definition writeFileSafe :: "env \<Rightarrow> Path \<Rightarrow> string \<Rightarrow> engine \<Rightarrow> unit outcome \<times> engine" where
  "writeFileSafe e p content st = safeOutputCheck e (\<lambda>q. WriteFile q content) (outputDir e) p st"

definition mkdirSyncSafe :: "env \<Rightarrow> Path \<Rightarrow> engine \<Rightarrow> unit outcome \<times> engine" where
  "mkdirSyncSafe e p st = safeOutputCheck e MkdirSync (outputDir e) p st"

text \<open>\<^verbatim>\<open>if (!fs.existsSync(writePath)) this.mkdirSyncSafe(writePath, {recursive: true})\<close>.\<close>

definition ensureDir :: "env \<Rightarrow> Path \<Rightarrow> engine \<Rightarrow> unit outcome \<times> engine" where
  "ensureDir e writePath st =
     (if \<not> existsSync e (fs st) writePath then mkdirSyncSafe e writePath st else (Ok (), st))"

text \<open>\<^verbatim>\<open>renderTemplate(template, path, data)\<close>. Whatever the \<^verbatim>\<open>try\<close> block throws is counted and
  thrown again. The ledger record is pushed before the write is attempted.\<close>

definition renderTemplate ::
  "env \<Rightarrow> nat \<Rightarrow> string \<Rightarrow> string \<Rightarrow> PageData \<Rightarrow> engine \<Rightarrow> (string outcome \<times> engine) option" where
  "renderTemplate e fuel template pagePath passed st =
     (let fixed = fixPath pagePath;
          entryScriptName = getEntryScriptName fixed;
          inputVars = [(''pagePath'', JStr fixed), (''pageName'', JStr template),
                       (''lastPath'', JStr entryScriptName),
                       (''entryScript'',
                          JStr ((if fixed = ''/'' then [] else fixed @ ''/'') @ entryScriptName @ ''.js''))];
          renderData = spread inputVars passed
      in case renderRecursive fuel template [] renderData template None st of
           None \<Rightarrow> None
         | Some (Threw err, st1) \<Rightarrow> Some (Threw err, st1\<lparr>errorCount := errorCount st1 + 1\<rparr>)
         | Some (Ok (out, _), st1) \<Rightarrow>
             (let writePath = ''./'' @ path_join e [outputDir e, ''/'', fixed]
              in case ensureDir e writePath st1 of
                   (Threw err, st2) \<Rightarrow> Some (Threw err, st2\<lparr>errorCount := errorCount st2 + 1\<rparr>)
                 | (Ok _, st2) \<Rightarrow>
                     (let p = path_resolve e (writePath @ ''/index.html'');
                          st3 = st2\<lparr>outputData := (outputData st2)
                                  \<lparr>html := html (outputData st2) @
                                     [\<lparr>source = template, path = p, time = getNowDate e\<rparr>]\<rparr>\<rparr>
                      in case writeFileSafe e p out st3 of
                           (Threw err, st4) \<Rightarrow>
                             Some (Threw err, st4\<lparr>errorCount := errorCount st4 + 1\<rparr>)
                         | (Ok _, st4) \<Rightarrow> Some (Ok fixed, st4))))"

text \<open>\<^verbatim>\<open>writeEntryScript(template, script, path, name)\<close>.\<close>

definition writeEntryScript ::
  "env \<Rightarrow> string \<Rightarrow> string \<Rightarrow> string \<Rightarrow> string \<Rightarrow> engine \<Rightarrow> unit outcome \<times> engine" where
  "writeEntryScript e template script pagePath scriptName st =
     (let writePath = ''./'' @ path_join e [outputDir e, ''/'', pagePath]
      in case ensureDir e writePath st of
           (Threw err, st1) \<Rightarrow> (Threw err, st1)
         | (Ok _, st1) \<Rightarrow>
             (let p = path_resolve e (writePath @ ''/'' @ scriptName);
                  st2 = st1\<lparr>outputData := (outputData st1)
                          \<lparr>entry := entry (outputData st1) @
                             [\<lparr>source = template, path = p, time = getNowDate e\<rparr>]\<rparr>\<rparr>
              in writeFileSafe e p script st2))"

text \<open>The \<^verbatim>\<open>while (wrapperRef)\<close> loop of \<^verbatim>\<open>processEntryScripts\<close>: it walks the wrapper chain and
  puts each wrapper's entry script in front. Reading \<^verbatim>\<open>.wrapper\<close> of a page without front matter
  is a \<^verbatim>\<open>TypeError\<close>. \<open>None\<close>: the fuel is used up (a cycle of wrappers).\<close>

fun entryLoop ::
  "nat \<Rightarrow> string \<Rightarrow> string list \<Rightarrow> 'a TemplerData_scheme \<Rightarrow> string list outcome option" where
  "entryLoop fuel wrapperRef scripts st =
     (if wrapperRef = [] then Some (Ok scripts)
      else (case lookup (frontMatter st) wrapperRef of
              None \<Rightarrow> Some (Threw (mkTypeError ''Cannot read properties of undefined (reading wrapper)''))
            | Some fm \<Rightarrow>
                (case string_entry fm ''wrapper'' of
                   None \<Rightarrow> Some (Ok scripts)
                 | Some wrapperPage \<Rightarrow>
                     (case fuel of
                        0 \<Rightarrow> None
                      | Suc n \<Rightarrow>
                          entryLoop n wrapperPage
                            (case lookup (entryScripts st) wrapperPage of
                               Some code \<Rightarrow>
                                 (''// entry script: '' @ wrapperPage @ [CHR 0x0A] @ code) # scripts
                             | None \<Rightarrow> scripts) st))))"

text \<open>\<^verbatim>\<open>scripts.join("\n")\<close>.\<close>

fun join_lines :: "string list \<Rightarrow> string" where
  "join_lines [] = []"
| "join_lines [x] = x"
| "join_lines (x # y # ys) = x @ [CHR 0x0A] @ join_lines (y # ys)"

text \<open>\<^verbatim>\<open>processEntryScripts(pageName, outPath)\<close>.\<close>

definition processEntryScripts ::
  "env \<Rightarrow> nat \<Rightarrow> PageName \<Rightarrow> string \<Rightarrow> engine \<Rightarrow> (unit outcome \<times> engine) option" where
  "processEntryScripts e fuel pageName outPath st =
     (let own = (case lookup (entryScripts st) pageName of
                   Some code \<Rightarrow> [''// entry script: '' @ pageName @ [CHR 0x0A] @ code]
                 | None \<Rightarrow> [])
      in case entryLoop fuel pageName own st of
           None \<Rightarrow> None
         | Some (Threw err) \<Rightarrow> Some (Threw err, st)
         | Some (Ok scripts) \<Rightarrow>
             (if scripts \<noteq> []
              then Some (writeEntryScript e pageName (join_lines scripts) outPath
                           (getEntryScriptName outPath @ ''.js'') st)
              else Some (Ok (), st)))"

subsection \<open>Script responses\<close>

text \<open>\<^verbatim>\<open>if (!tree[key]) tree[key] = {}; tree[key][name] = true\<close>.\<close>

definition add_dep :: "DependencyTree \<Rightarrow> string \<Rightarrow> PageName \<Rightarrow> DependencyTree" where
  "add_dep tree key pageName = assign tree key (dep_add pageName (dependents_of tree key))"

text \<open>The \<^verbatim>\<open>for (const file in siteFiles)\<close> loop of \<^verbatim>\<open>processGeneratorResponse\<close>.\<close>

fun writeSiteFiles :: "env \<Rightarrow> PageName \<Rightarrow> jsval dict \<Rightarrow> engine \<Rightarrow> unit outcome \<times> engine" where
  "writeSiteFiles e pageName [] st = (Ok (), st)"
| "writeSiteFiles e pageName ((file, v) # siteFiles) st =
     (let p = path_resolve e (''./'' @ path_join e [outputDir e @ ''/'' @ file]);
          writePath = path_parse_dir e p
      in case ensureDir e writePath st of
           (Threw err, st1) \<Rightarrow> (Threw err, st1)
         | (Ok _, st1) \<Rightarrow>
             (let st2 = st1\<lparr>outputData := (outputData st1)
                          \<lparr>json := json (outputData st1) @
                             [\<lparr>source = pageName, path = p, time = getNowDate e\<rparr>]\<rparr>\<rparr>;
                  writeData = (case v of JStr str \<Rightarrow> str | _ \<Rightarrow> JSON_stringify e v)
              in case writeFileSafe e p writeData st2 of
                   (Threw err, st3) \<Rightarrow> (Threw err, st3)
                 | (Ok _, st3) \<Rightarrow> writeSiteFiles e pageName siteFiles st3))"

text \<open>\<^verbatim>\<open>processGeneratorResponse(response, name, cacheName)\<close>.\<close>

definition processGeneratorResponse ::
  "env \<Rightarrow> GeneratorResponse option \<Rightarrow> PageName \<Rightarrow> string \<Rightarrow> engine \<Rightarrow> unit outcome \<times> engine" where
  "processGeneratorResponse e response pageName cacheName st =
     (case response of
        None \<Rightarrow> (Ok (), st)
      | Some r \<Rightarrow>
          (let st1 = (case r_cache r of
                        Some c \<Rightarrow> st\<lparr>cache := assign (cache st) cacheName c\<rparr>
                      | None \<Rightarrow> st);
               st2 = (if truthy (r_outData r)
                      then st1\<lparr>outputData := (outputData st1)
                              \<lparr>outData := assign (outData (outputData st1)) pageName (r_outData r)\<rparr>\<rparr>
                      else st1)
           in case (case r_siteFiles r of
                      Some siteFiles \<Rightarrow> writeSiteFiles e pageName siteFiles st2
                    | None \<Rightarrow> (Ok (), st2)) of
                (Threw err, st3) \<Rightarrow> (Threw err, st3)
              | (Ok _, st3) \<Rightarrow>
                  (let st4 = (case r_watchFiles r of
                                Some files \<Rightarrow>
                                  fold (\<lambda>file s. s\<lparr>pathDepTree :=
                                          add_dep (pathDepTree s) (path_resolve e file) pageName\<rparr>)
                                    files st3
                              | None \<Rightarrow> st3);
                       st5 = (case r_watchGlobs r of
                                Some globs \<Rightarrow>
                                  fold (\<lambda>glob s. s\<lparr>wildDepTree :=
                                          add_dep (wildDepTree s) glob pageName\<rparr>)
                                    globs st4
                              | None \<Rightarrow> st4)
                   in (Ok (), st5))))"

subsection \<open>Script blocks of a template\<close>

definition libDir :: string where "libDir = ''/js''"
definition SCRIPT_ENTRY :: string where "SCRIPT_ENTRY = ''<script entry>''"
definition SCRIPT_LIB :: string where "SCRIPT_LIB = ''<script lib>''"
definition SCRIPT_GENERATE :: string where "SCRIPT_GENERATE = ''<script generate>''"
definition SCRIPT_GENERATE_USE :: string where "SCRIPT_GENERATE_USE = ''<script generate-use:''"
definition END_SCRIPT :: string where "END_SCRIPT = ''</script>''"

text \<open>\<^verbatim>\<open>s.slice(n, -m)\<close>.\<close>

definition slice_between :: "nat \<Rightarrow> nat \<Rightarrow> string \<Rightarrow> string" where
  "slice_between n m s = drop n (take (length s - m) s)"

text \<open>\<^verbatim>\<open>processScript(source, name)\<close>. A \<^verbatim>\<open>lib\<close> block is written at once, under
  \<^verbatim>\<open>outputDir + "/js"\<close>. The regular expression is applied to the trimmed text by the host.\<close>

definition processScript :: "env \<Rightarrow> string \<Rightarrow> PageName \<Rightarrow> engine \<Rightarrow> bool outcome \<times> engine" where
  "processScript e src pageName st =
     (if prefix SCRIPT_GENERATE src then
        (Ok True, st\<lparr>generateScripts := assign (generateScripts st) pageName
                       (slice_between (length SCRIPT_GENERATE) (length END_SCRIPT) src)\<rparr>)
      else if prefix SCRIPT_GENERATE_USE src then
        (case generate_use_match e
                (slice_between (length SCRIPT_GENERATE_USE) (length END_SCRIPT) src) of
           Some dependency \<Rightarrow>
             (Ok True, markDependsOn pageName dependency
                (st\<lparr>generateScriptRefs := assign (generateScriptRefs st) pageName dependency\<rparr>))
         | None \<Rightarrow> (Ok True, st))
      else if prefix SCRIPT_ENTRY src then
        (Ok True, st\<lparr>entryScripts := assign (entryScripts st) pageName
                       (slice_between (length SCRIPT_ENTRY) (length END_SCRIPT) src)\<rparr>)
      else if prefix SCRIPT_LIB src then
        (let stripped = slice_between (length SCRIPT_LIB) (length END_SCRIPT) src;
             dir = path_parse_dir e pageName
         in case ensureDir e (outputDir e @ libDir @ ''/'' @ dir) st of
              (Threw err, st1) \<Rightarrow> (Threw err, st1)
            | (Ok _, st1) \<Rightarrow>
                (let p = path_resolve e (outputDir e @ libDir @ ''/'' @ pageName @ ''.js'');
                     st2 = st1\<lparr>outputData := (outputData st1)
                             \<lparr>lib := lib (outputData st1) @
                                [\<lparr>source = pageName, path = p, time = getNowDate e\<rparr>]\<rparr>\<rparr>
                 in case writeFileSafe e p stripped st2 of
                      (Threw err, st3) \<Rightarrow> (Threw err, st3)
                    | (Ok _, st3) \<Rightarrow> (Ok True, st3)))
      else (Ok False, st))"

section \<open>Generating pages\<close>

text \<open>The end of \<^verbatim>\<open>checkDone\<close>: \<^verbatim>\<open>toRender--; if (toRender == 0) resolve()\<close>.\<close>

definition settle :: "engine \<Rightarrow> engine" where
  "settle st =
     (let st1 = st\<lparr>toRender := toRender st - 1\<rparr>
      in if toRender st1 = 0 then st1\<lparr>resolved := resolved st1 + 1\<rparr> else st1)"

text \<open>\<^verbatim>\<open>checkDone(pageName, generated, outPath)\<close>: a throw of \<^verbatim>\<open>processEntryScripts\<close> leaves before
  the count is touched.\<close>

definition checkDone ::
  "env \<Rightarrow> nat \<Rightarrow> PageName \<Rightarrow> bool \<Rightarrow> string \<Rightarrow> engine \<Rightarrow> (unit outcome \<times> engine) option" where
  "checkDone e fuel pageName generated outPath st =
     (if generated then
        (case processEntryScripts e fuel pageName outPath st of
           None \<Rightarrow> None
         | Some (Threw err, st1) \<Rightarrow> Some (Threw err, st1)
         | Some (Ok _, st1) \<Rightarrow> Some (Ok (), settle st1))
      else Some (Ok (), settle st))"

text \<open>The block that \<^verbatim>\<open>generateSimple\<close> and the batch loop share:
  \<^verbatim>\<open>try { fixedPath = renderTemplate(..); checkDone(name, true, fixedPath) } catch { checkDone(name) }\<close>.
  It never throws.\<close>

definition tryRender ::
  "env \<Rightarrow> nat \<Rightarrow> PageName \<Rightarrow> string \<Rightarrow> PageData \<Rightarrow> engine \<Rightarrow> engine option" where
  "tryRender e fuel pageName pagePath passed st =
     (case renderTemplate e fuel pageName pagePath passed st of
        None \<Rightarrow> None
      | Some (Threw _, st1) \<Rightarrow> Some (settle st1)
      | Some (Ok fixedPath, st1) \<Rightarrow>
          (case checkDone e fuel pageName True fixedPath st1 of
             None \<Rightarrow> None
           | Some (Threw _, st2) \<Rightarrow> Some (settle st2)
           | Some (Ok _, st2) \<Rightarrow> Some st2))"

text \<open>\<^verbatim>\<open>generateSimple(pageName, path)\<close>.\<close>

definition generateSimple :: "env \<Rightarrow> nat \<Rightarrow> PageName \<Rightarrow> string \<Rightarrow> engine \<Rightarrow> engine option" where
  "generateSimple e fuel pageName pagePath st =
     tryRender e fuel pageName pagePath
       (spread [(''global'', getGlobalDataAccessProxy pageName st)]
          (case lookup (frontMatter st) pageName of Some fm \<Rightarrow> fm | None \<Rightarrow> []))
       st"

text \<open>\<^verbatim>\<open>chalkUpError(name, error)\<close>. All it does besides logging: reading \<^verbatim>\<open>error.message\<close> fails on
  \<^verbatim>\<open>undefined\<close> and \<^verbatim>\<open>null\<close>, and the \<^verbatim>\<open>catch\<close> that guards the listing of the script counts an
  error; the guarded block fails when \<^verbatim>\<open>error.stack\<close> is set and has no \<^verbatim>\<open>split\<close>, that is when
  it is not a string.\<close>

definition chalkUpError :: "PageName \<Rightarrow> jsval \<Rightarrow> engine \<Rightarrow> unit outcome \<times> engine" where
  "chalkUpError pageName error st =
     (if error = JUndefined \<or> error = JNull
      then (Threw (mkTypeError ''Cannot read properties of undefined (reading message)''), st)
      else if truthy (field error ''stack'')
      then (case field error ''stack'' of
              JStr _ \<Rightarrow> (Ok (), st)
            | _ \<Rightarrow> (Ok (), st\<lparr>errorCount := errorCount st + 1\<rparr>))
      else (Ok (), st))"

text \<open>The callbacks handed to the generate script of the request \<open>gd\<close>. \<open>rendered\<close> is the
  request's count of pages rendered by batch requests.\<close>

text \<open>\<^verbatim>\<open>generateError(error)\<close>, the script's \<^verbatim>\<open>reject\<close>.\<close>

definition generateError :: "ToGenerateData \<Rightarrow> jsval \<Rightarrow> engine \<Rightarrow> unit outcome \<times> engine" where
  "generateError gd error st =
     (case chalkUpError (name gd) error st of
        (Threw err, st1) \<Rightarrow> (Threw err, st1)
      | (Ok _, st1) \<Rightarrow> (Ok (), settle st1))"

text \<open>\<^verbatim>\<open>generateDone(response)\<close>, the script's \<^verbatim>\<open>resolve\<close>.\<close>

definition generateDone ::
  "env \<Rightarrow> nat \<Rightarrow> ToGenerateData \<Rightarrow> GeneratorResponse option \<Rightarrow> nat \<Rightarrow> engine \<Rightarrow>
   (unit outcome \<times> engine) option" where
  "generateDone e fuel gd response rendered st =
     (case (if rendered = 0 then
              (if pathStars (generate gd) > 0 then Some st
               else generateSimple e fuel (name gd) (generate gd) (st\<lparr>toRender := toRender st + 1\<rparr>))
            else Some st) of
        None \<Rightarrow> None
      | Some st1 \<Rightarrow>
          (case processGeneratorResponse e response (name gd) (getCacheName (name gd)) st1 of
             (Threw err, st2) \<Rightarrow> Some (Threw err, st2)
           | (Ok _, st2) \<Rightarrow> Some (Ok (), settle st2)))"

text \<open>The \<^verbatim>\<open>pages.forEach\<close> loop of the batch callback.\<close>

fun batchLoop ::
  "env \<Rightarrow> nat \<Rightarrow> ToGenerateData \<Rightarrow> PageGenerateRequest list \<Rightarrow> nat \<Rightarrow> engine \<Rightarrow>
   (nat \<times> engine) option" where
  "batchLoop e fuel gd [] rendered st = Some (rendered, st)"
| "batchLoop e fuel gd (generatePageRequest # pages) rendered st =
     (let passed = spread (spread [(''global'', getGlobalDataAccessProxy (name gd) st)]
                             (req_data generatePageRequest))
                     (case lookup (frontMatter st) (name gd) of Some fm \<Rightarrow> fm | None \<Rightarrow> []);
          starReplacedPath = replace_star (generate gd) (req_path generatePageRequest)
      in case tryRender e fuel (name gd) starReplacedPath passed st of
           None \<Rightarrow> None
         | Some st1 \<Rightarrow> batchLoop e fuel gd pages (rendered + 1) st1)"

text \<open>\<^verbatim>\<open>pages = Array.isArray(response) ? response : [response]\<close>.\<close>

definition requested_pages :: "GeneratorPages \<Rightarrow> PageGenerateRequest list" where
  "requested_pages response = (case response of OnePage pg \<Rightarrow> [pg] | PageArray pgs \<Rightarrow> pgs)"

text \<open>\<^verbatim>\<open>generatePages(response)\<close>, the script's \<^verbatim>\<open>generate\<close> (the batch-page-request callback).\<close>

definition generatePagesCallback ::
  "env \<Rightarrow> nat \<Rightarrow> ToGenerateData \<Rightarrow> GeneratorPages \<Rightarrow> nat \<Rightarrow> engine \<Rightarrow>
   (unit outcome \<times> nat \<times> engine) option" where
  "generatePagesCallback e fuel gd response rendered st =
     (let pages = requested_pages response
      in if pathStars (generate gd) > 1 then
           Some (Threw (mkError (''Generate paths can only include a single path replacement *''
                                  @ name gd)), rendered, st)
         else if pathStars (generate gd) = 0 then
           Some (Threw (mkError (''Generate paths must include a path replacement * when generating 1 or more pages from data.''
                                  @ name gd)), rendered, st)
         else if pages = [] then Some (Ok (), rendered, st)
         else (case batchLoop e fuel gd pages rendered
                      (st\<lparr>toRender := toRender st + int (length pages)\<rparr>) of
                 None \<Rightarrow> None
               | Some (rendered', st1) \<Rightarrow> Some (Ok (), rendered', st1)))"

text \<open>One call of the script on its capabilities. \<open>inputs_global\<close> is the accessor built for
  \<^verbatim>\<open>inputs.global\<close> before the script starts. The \<^verbatim>\<open>renderTemplate\<close> handed to the script renders
  without writing and wraps any error in a new one.\<close>

fun scriptCall ::
  "env \<Rightarrow> nat \<Rightarrow> ToGenerateData \<Rightarrow> jsval \<Rightarrow> script_call \<Rightarrow> nat \<Rightarrow> engine \<Rightarrow>
   (unit outcome \<times> nat \<times> engine) option" where
  "scriptCall e fuel gd inputs_global (Resolve response) rendered st =
     (case generateDone e fuel gd response rendered st of
        None \<Rightarrow> None
      | Some (r, st1) \<Rightarrow> Some (r, rendered, st1))"
| "scriptCall e fuel gd inputs_global (Reject error) rendered st =
     (case generateError gd error st of (r, st1) \<Rightarrow> Some (r, rendered, st1))"
| "scriptCall e fuel gd inputs_global (GeneratePagesCall response) rendered st =
     generatePagesCallback e fuel gd response rendered st"
| "scriptCall e fuel gd inputs_global (ReadGlobal key) rendered st =
     (case proxy_get inputs_global key st of
        (Threw err, st1) \<Rightarrow> Some (Threw err, rendered, st1)
      | (Ok _, st1) \<Rightarrow> Some (Ok (), rendered, st1))"
| "scriptCall e fuel gd inputs_global (RenderTemplateCall template passed) rendered st =
     (case renderRecursive fuel (name gd) [] passed template None st of
        None \<Rightarrow> None
      | Some (Threw err, st1) \<Rightarrow>
          Some (Threw (mkError (''Couldn't render template '' @ template)), rendered, st1)
      | Some (Ok _, st1) \<Rightarrow> Some (Ok (), rendered, st1))"
| "scriptCall e fuel gd inputs_global (Throw v) rendered st = Some (Threw v, rendered, st)"
| "scriptCall e fuel gd inputs_global (Caught c) rendered st =
     (case scriptCall e fuel gd inputs_global c rendered st of
        None \<Rightarrow> None
      | Some (Threw _, rendered', st1) \<Rightarrow> Some (Ok (), rendered', st1)
      | Some (Ok _, rendered', st1) \<Rightarrow> Some (Ok (), rendered', st1))"

text \<open>A run of script code: its calls in order, up to the first that throws uncaught.\<close>

fun runScript ::
  "env \<Rightarrow> nat \<Rightarrow> ToGenerateData \<Rightarrow> jsval \<Rightarrow> script_call list \<Rightarrow> nat \<Rightarrow> engine \<Rightarrow>
   (unit outcome \<times> nat \<times> engine) option" where
  "runScript e fuel gd inputs_global [] rendered st = Some (Ok (), rendered, st)"
| "runScript e fuel gd inputs_global (c # calls) rendered st =
     (case scriptCall e fuel gd inputs_global c rendered st of
        None \<Rightarrow> None
      | Some (Threw err, rendered', st1) \<Rightarrow> Some (Threw err, rendered', st1)
      | Some (Ok _, rendered', st1) \<Rightarrow> runScript e fuel gd inputs_global calls rendered' st1)"

text \<open>\<^verbatim>\<open>error instanceof Error\<close>.\<close>

fun is_Error :: "jsval \<Rightarrow> bool" where
  "is_Error (JError _ _) = True"
| "is_Error _ = False"

text \<open>\<^verbatim>\<open>if (!me.state.cache[cacheName]) me.state.cache[cacheName] = {}\<close>.\<close>

definition ensureCacheGroup :: "string \<Rightarrow> engine \<Rightarrow> engine" where
  "ensureCacheGroup cacheName st =
     (case lookup (cache st) cacheName of
        None \<Rightarrow> st\<lparr>cache := assign (cache st) cacheName []\<rparr>
      | Some _ \<Rightarrow> st)"

text \<open>The \<^verbatim>\<open>catch\<close> around the run of the script body: what the body throws is counted and
  passed to \<^verbatim>\<open>generateError\<close>, as it is when it is an \<^verbatim>\<open>Error\<close>, as a new \<^verbatim>\<open>Error\<close> otherwise.\<close>

definition catchScript :: "ToGenerateData \<Rightarrow> unit outcome \<Rightarrow> engine \<Rightarrow> unit outcome \<times> engine" where
  "catchScript gd r st =
     (case r of
        Ok _ \<Rightarrow> (Ok (), st)
      | Threw error \<Rightarrow>
          generateError gd (if is_Error error then error else mkError ''unknown error'')
            (st\<lparr>errorCount := errorCount st + 1\<rparr>))"

text \<open>\<^verbatim>\<open>me.state.cache[me.getCacheName(name)]\<close>, the cache group that a script is handed.\<close>

definition cache_group :: "PageName \<Rightarrow> 'a TemplerData_scheme \<Rightarrow> CacheData" where
  "cache_group pageName st =
     (case lookup (cache st) (getCacheName pageName) of Some c \<Rightarrow> c | None \<Rightarrow> [])"

text \<open>The callbacks that a script has registered stay behind when its body returns or throws.\<close>

definition registerCallbacks :: "pending \<Rightarrow> engine \<Rightarrow> engine" where
  "registerCallbacks p st =
     (case p of (gd, inputs_global, rendered, later) \<Rightarrow>
        if later = [] then st else st\<lparr>callbacks := callbacks st @ [p]\<rparr>)"

text \<open>The calls of the body of the request's script, which is handed the cache group that the
  state holds when the script starts.\<close>

definition scriptBody :: "env \<Rightarrow> ToGenerateData \<Rightarrow> engine \<Rightarrow> script_call list" where
  "scriptBody e gd st =
     runInThisContext e (getGenerateScript (name gd) st) (name gd) (cache_group (name gd) st)"

text \<open>\<^verbatim>\<open>try { vm.runInThisContext(code)(require, generateDone, generateError, generatePages, inputs,
  ..., cache[...], ...) } catch (error) { ... }\<close>: the script body runs with the count
  \<^verbatim>\<open>rendered = 0\<close>.\<close>

definition runScriptText ::
  "env \<Rightarrow> nat \<Rightarrow> ToGenerateData \<Rightarrow> jsval \<Rightarrow> engine \<Rightarrow> (unit outcome \<times> engine) option" where
  "runScriptText e fuel gd inputs_global st =
     (case runScript e fuel gd inputs_global (scriptBody e gd st) 0 st of
        None \<Rightarrow> None
      | Some (r, rendered, st1) \<Rightarrow>
          (case catchScript gd r st1 of
             (res, st2) \<Rightarrow>
               Some (res, registerCallbacks
                       (gd, inputs_global, rendered,
                        callbacksOf e (getGenerateScript (name gd) st) (name gd)
                          (cache_group (name gd) st))
                       st2)))"

text \<open>The branch of the \<^verbatim>\<open>forEach\<close> body for a page with a generate script. \<^verbatim>\<open>expireCache()\<close>
  stands before the \<^verbatim>\<open>try\<close> block, so its throw leaves the loop.\<close>

definition runGenerateScript ::
  "env \<Rightarrow> nat \<Rightarrow> ToGenerateData \<Rightarrow> engine \<Rightarrow> (unit outcome \<times> engine) option" where
  "runGenerateScript e fuel gd st =
     (let st1 = ensureCacheGroup (getCacheName (name gd)) st;
          inputs_global = getGlobalDataAccessProxy (name gd) st1
      in case expireCache e st1 of
           (Threw err, st2) \<Rightarrow> Some (Threw err, st2)
         | (Ok _, st2) \<Rightarrow> runScriptText e fuel gd inputs_global st2)"

text \<open>The body of \<^verbatim>\<open>toGenerate.forEach\<close> for one request.\<close>

definition dispatch ::
  "env \<Rightarrow> nat \<Rightarrow> ToGenerateData \<Rightarrow> engine \<Rightarrow> (unit outcome \<times> engine) option" where
  "dispatch e fuel gd st0 =
     (let st = st0\<lparr>toGenerate := remove (toGenerate st0) (name gd)\<rparr>
      in if getGenerateScript (name gd) st \<noteq> [] then runGenerateScript e fuel gd st
         else if generate gd \<noteq> [] then
           (case generateSimple e fuel (name gd) (generate gd) st of
              None \<Rightarrow> None
            | Some st1 \<Rightarrow> Some (Ok (), st1))
         else Some (Ok (), st))"

text \<open>The \<^verbatim>\<open>forEach\<close> over the queued requests: a throw that leaves one body leaves the loop.\<close>

fun dispatchAll ::
  "env \<Rightarrow> nat \<Rightarrow> ToGenerateData list \<Rightarrow> engine \<Rightarrow> (unit outcome \<times> engine) option" where
  "dispatchAll e fuel [] st = Some (Ok (), st)"
| "dispatchAll e fuel (gd # queue) st =
     (case dispatch e fuel gd st of
        None \<Rightarrow> None
      | Some (Threw err, st1) \<Rightarrow> Some (Threw err, st1)
      | Some (Ok _, st1) \<Rightarrow> dispatchAll e fuel queue st1)"

text \<open>The callbacks of one request fire in their order, each a run of script code with the
  request's closures. Nothing catches what such a run throws: the exception is uncaught, which
  ends the process.\<close>

fun runTurns ::
  "env \<Rightarrow> nat \<Rightarrow> ToGenerateData \<Rightarrow> jsval \<Rightarrow> script_call list list \<Rightarrow> nat \<Rightarrow> engine \<Rightarrow>
   (unit outcome \<times> engine) option" where
  "runTurns e fuel gd inputs_global [] rendered st = Some (Ok (), st)"
| "runTurns e fuel gd inputs_global (calls # later) rendered st =
     (case runScript e fuel gd inputs_global calls rendered st of
        None \<Rightarrow> None
      | Some (Threw err, rendered', st1) \<Rightarrow> Some (Threw err, st1)
      | Some (Ok _, rendered', st1) \<Rightarrow> runTurns e fuel gd inputs_global later rendered' st1)"

text \<open>The registered callbacks fire after the loop over the queue has returned. The order among
  the callbacks of different requests depends on the timers and promises the scripts use; here
  they fire request by request, in the order of the queue.\<close>

fun runCallbacks :: "env \<Rightarrow> nat \<Rightarrow> pending list \<Rightarrow> engine \<Rightarrow> (unit outcome \<times> engine) option" where
  "runCallbacks e fuel [] st = Some (Ok (), st)"
| "runCallbacks e fuel ((gd, inputs_global, rendered, later) # ps) st =
     (case runTurns e fuel gd inputs_global later rendered st of
        None \<Rightarrow> None
      | Some (Threw err, st1) \<Rightarrow> Some (Threw err, st1)
      | Some (Ok _, st1) \<Rightarrow> runCallbacks e fuel ps st1)"

text \<open>\<^verbatim>\<open>generatePages()\<close>, followed by the callbacks that the scripts of the run left behind.\<close>

definition generatePages :: "env \<Rightarrow> nat \<Rightarrow> engine \<Rightarrow> (unit outcome \<times> engine) option" where
  "generatePages e fuel st =
     (let queue = map snd (toGenerate st);
          st1 = st\<lparr>toRender := int (length queue), resolved := 0\<rparr>
      in if toRender st1 = 0 then Some (Ok (), st1\<lparr>resolved := 1\<rparr>)
         else (case dispatchAll e fuel queue st1 of
                 None \<Rightarrow> None
               | Some (Threw err, st2) \<Rightarrow> Some (Threw err, st2)
               | Some (Ok _, st2) \<Rightarrow> runCallbacks e fuel (callbacks st2) (st2\<lparr>callbacks := []\<rparr>)))"

section \<open>The post-generation hook\<close>

definition POST_GENERATE_JS :: string where "POST_GENERATE_JS = ''postGenerate.js''"
definition POST_GENERATE_NAME :: string where "POST_GENERATE_NAME = ''POST_GENERATE''"

text \<open>The promise that \<^verbatim>\<open>processPostGenerate()\<close> returns; once settled it stays as it is.\<close>

datatype promise_state = Pending | Fulfilled | Rejected jsval

definition settle_promise :: "promise_state \<Rightarrow> promise_state \<Rightarrow> promise_state" where
  "settle_promise new p = (if p = Pending then new else p)"

text \<open>One call of the hook script. It is handed \<^verbatim>\<open>resolve\<close> (\<^verbatim>\<open>generateSuccess\<close>) and \<^verbatim>\<open>reject\<close>
  (\<^verbatim>\<open>generateError\<close>, which counts the error itself); \<^verbatim>\<open>generate\<close>, \<^verbatim>\<open>inputs\<close> and
  \<^verbatim>\<open>renderTemplate\<close> are not bound in its scope.\<close>

fun postCall ::
  "env \<Rightarrow> script_call \<Rightarrow> promise_state \<Rightarrow> engine \<Rightarrow> unit outcome \<times> promise_state \<times> engine" where
  "postCall e (Resolve response) p st =
     (case processGeneratorResponse e response POST_GENERATE_JS (getCacheName POST_GENERATE_NAME) st of
        (Threw err, st1) \<Rightarrow> (Threw err, p, st1)
      | (Ok _, st1) \<Rightarrow> (Ok (), settle_promise Fulfilled p, st1))"
| "postCall e (Reject error) p st =
     (case chalkUpError POST_GENERATE_NAME error (st\<lparr>errorCount := errorCount st + 1\<rparr>) of
        (Threw err, st1) \<Rightarrow> (Threw err, p, st1)
      | (Ok _, st1) \<Rightarrow> (Ok (), settle_promise (Rejected error) p, st1))"
| "postCall e (Throw v) p st = (Threw v, p, st)"
| "postCall e (Caught c) p st =
     (case postCall e c p st of
        (Threw _, p1, st1) \<Rightarrow> (Ok (), p1, st1)
      | (Ok _, p1, st1) \<Rightarrow> (Ok (), p1, st1))"
| "postCall e (GeneratePagesCall pages) p st =
     (Threw (JError ''generate is not defined'' ''ReferenceError: generate is not defined''), p, st)"
| "postCall e (ReadGlobal key) p st =
     (Threw (JError ''inputs is not defined'' ''ReferenceError: inputs is not defined''), p, st)"
| "postCall e (RenderTemplateCall template passed) p st =
     (Threw (JError ''renderTemplate is not defined''
               ''ReferenceError: renderTemplate is not defined''), p, st)"

fun postCalls ::
  "env \<Rightarrow> script_call list \<Rightarrow> promise_state \<Rightarrow> engine \<Rightarrow> unit outcome \<times> promise_state \<times> engine" where
  "postCalls e [] p st = (Ok (), p, st)"
| "postCalls e (c # calls) p st =
     (case postCall e c p st of
        (Threw err, p1, st1) \<Rightarrow> (Threw err, p1, st1)
      | (Ok _, p1, st1) \<Rightarrow> postCalls e calls p1 st1)"

text \<open>\<^verbatim>\<open>processPostGenerate()\<close>, for the body of the hook script. The script is handed the cache
  group of the state as it is: there is no call of \<^verbatim>\<open>expireCache\<close> here. What the body throws is
  counted and rejects the promise. (\<^verbatim>\<open>processPreGenerate()\<close> has the same shape and no call of
  \<^verbatim>\<open>expireCache\<close> either; it is not modelled.)\<close>

definition processPostGenerate :: "env \<Rightarrow> engine \<Rightarrow> promise_state \<times> engine" where
  "processPostGenerate e st =
     (case readFile e (inputDir e @ ''/'' @ POST_GENERATE_JS) of
        None \<Rightarrow> (Fulfilled, st)
      | Some script \<Rightarrow>
          (let st1 = ensureCacheGroup (getCacheName POST_GENERATE_NAME) st
           in case postCalls e (runInThisContext e script POST_GENERATE_NAME
                                  (cache_group POST_GENERATE_NAME st1)) Pending st1 of
                (Threw error, p, st2) \<Rightarrow>
                  (settle_promise (Rejected error) p, st2\<lparr>errorCount := errorCount st2 + 1\<rparr>)
              | (Ok _, p, st2) \<Rightarrow> (p, st2)))"

section \<open>Predicates used in the properties\<close>

text \<open>The file-system calls made between two states all passed the containment check: the later
  trace extends the earlier one by calls on paths inside the output directory.\<close>

definition checked_calls :: "env \<Rightarrow> fs_call list \<Rightarrow> bool" where
  "checked_calls e calls = list_all (\<lambda>c. isRelative e (outputDir e) (call_path c)) calls"

definition writes_checked :: "env \<Rightarrow> engine \<Rightarrow> engine \<Rightarrow> bool" where
  "writes_checked e st st' =
     (take (length (fs st)) (fs st') = fs st \<and> checked_calls e (drop (length (fs st)) (fs st')))"

text \<open>The state in which the script of a request starts when the scan of the cache returns: the
  request is off the queue, its cache group exists, and the entries past expiry are gone.\<close>

definition script_start :: "env \<Rightarrow> ToGenerateData \<Rightarrow> engine \<Rightarrow> engine" where
  "script_start e gd st =
     (let st1 = ensureCacheGroup (getCacheName (name gd))
                  (st\<lparr>toGenerate := remove (toGenerate st) (name gd)\<rparr>)
      in st1\<lparr>cache := purge e (cache st1)\<rparr>)"

text \<open>Two states differ at most in the template dependency index.\<close>

definition only_deps :: "'a TemplerData_scheme \<Rightarrow> 'a TemplerData_scheme \<Rightarrow> bool" where
  "only_deps st st' = (st' = st\<lparr>templateDepTree := templateDepTree st'\<rparr>)"

text \<open>The file that \<^verbatim>\<open>renderTemplate\<close> writes for a page path: \<^verbatim>\<open>index.html\<close> in the directory of the
  path below the output directory.\<close>

definition page_file :: "env \<Rightarrow> string \<Rightarrow> Path" where
  "page_file e pagePath =
     path_resolve e ((''./'' @ path_join e [outputDir e, ''/'', fixPath pagePath]) @ ''/index.html'')"







text \<open>What a render, and what a quiet call, can change of the state.\<close>

definition render_frame :: "engine \<Rightarrow> engine \<Rightarrow> bool" where
  "render_frame st st' =
     (st' = st\<lparr>templateDepTree := templateDepTree st', outputData := outputData st',
               errorCount := errorCount st', fs := fs st', toRender := toRender st',
               resolved := resolved st'\<rparr>)"

definition quiet_frame :: "engine \<Rightarrow> engine \<Rightarrow> bool" where
  "quiet_frame st st' =
     (st' = st\<lparr>globalDeps := globalDeps st', toRender := toRender st', resolved := resolved st'\<rparr>)"




text \<open>A step that counts no error, leaves the ledger of page files alone and only adds calls to
  the file-system trace.\<close>

definition keeps_pages :: "engine \<Rightarrow> engine \<Rightarrow> bool" where
  "keeps_pages st st' =
     (errorCount st' = errorCount st \<and> html (outputData st') = html (outputData st) \<and>
      prefix (fs st) (fs st'))"

section \<open>A small host for the examples\<close>

text \<open>A host with the working directory \<^verbatim>\<open>/site\<close> and the output directory \<^verbatim>\<open>out\<close>. Its path
  functions agree with Node's on the paths the examples use (no \<^verbatim>\<open>..\<close> segment, no doubled
  slash): \<^verbatim>\<open>resolve\<close> puts the working directory in front of a relative path, \<^verbatim>\<open>join\<close>
  concatenates its arguments (the engine always passes the separator itself), a path is relative
  to a directory when it is the directory or lies below it. A directory exists once it was made.
  No string of the examples is numeric. The scripts are given by the table \<open>run\<close>; they register
  no callback, and the input directory holds no hook script.\<close>

definition example_resolve :: "string \<Rightarrow> string" where
  "example_resolve p =
     (if prefix ''/'' p then p
      else if prefix ''./'' p then ''/site/'' @ drop 2 p
      else ''/site/'' @ p)"

definition example_dirname :: "string \<Rightarrow> string" where
  "example_dirname p = rev (drop 1 (dropWhile (\<lambda>c. c \<noteq> CHR ''/'') (rev p)))"

definition example_env :: "(Code \<Rightarrow> script_call list) \<Rightarrow> env" where
  "example_env run =
     \<lparr> outputDir = ''out'',
       isRelative = (\<lambda>parent p. example_resolve p = example_resolve parent
                        \<or> prefix (example_resolve parent @ ''/'') (example_resolve p)),
       path_resolve = example_resolve,
       path_join = concat,
       path_parse_dir = example_dirname,
       existsSync = (\<lambda>calls p. MkdirSync p \<in> set calls),
       getTime = 1000,
       getNowDate = ''2022-01-01T00:00:00.000Z'',
       string_to_number = (\<lambda>s. None),
       JSON_stringify = (\<lambda>v. ''null''),
       generate_use_match = (\<lambda>s. None),
       runInThisContext = (\<lambda>code pageName cacheGroup. run code),
       callbacksOf = (\<lambda>code pageName cacheGroup. []),
       inputDir = ''in'',
       readFile = (\<lambda>p. None) \<rparr>"






definition initial_engine :: engine where
  "initial_engine = \<lparr> generateScripts = [], generateScriptRefs = [], entryScripts = [],
     templateDepTree = [], pathDepTree = [], wildDepTree = [], globalDeps = [],
     frontMatter = [], templates = [], toGenerate = [], globalData = [], cache = [],
     outputData = \<lparr> html = [], entry = [], lib = [], json = [], outData = [] \<rparr>,
     errorCount = 0, fs = [], toRender = 0, resolved = 0, callbacks = [] \<rparr>"

text \<open>Three pages: \<^verbatim>\<open>A\<close> wrapped by \<^verbatim>\<open>B\<close>, \<^verbatim>\<open>B\<close> wrapped by \<^verbatim>\<open>C\<close>, \<^verbatim>\<open>C\<close> not wrapped.\<close>

definition pagesABC :: engine where
  "pagesABC = initial_engine\<lparr>
     frontMatter := [(''A'', [(''wrapper'', JStr ''B'')]), (''B'', [(''wrapper'', JStr ''C'')]),
                     (''C'', [])],
     templates := [(''A'', \<lambda>d. [Text ''a'']),
                   (''B'', \<lambda>d. [Text ''<b>'', Include ''_body'' None, Text ''</b>'']),
                   (''C'', \<lambda>d. [Text ''<c>'', Include ''_body'' None, Text ''</c>''])]\<rparr>"

text \<open>Global data with a key whose value is the number zero.\<close>

definition globalsExample :: engine where
  "globalsExample = initial_engine\<lparr>globalData := [(''title'', JStr ''Site''), (''count'', JNum 0)]\<rparr>"

text \<open>A cache with one group of three entries, the last one with \<^verbatim>\<open>expires: true\<close>.\<close>

definition cacheExample :: engine where
  "cacheExample = initial_engine\<lparr>cache :=
     [(''shared'', [(''old'', \<lparr>expires = JNum 500, data = JNull\<rparr>),
                    (''fresh'', \<lparr>expires = JNum 2000, data = JNull\<rparr>),
                    (''flag'', \<lparr>expires = JBool True, data = JNull\<rparr>)])]\<rparr>"

text \<open>A script that resolves with a report of the cache entries it finds, and a host in which
  every script is this one and the input directory holds a \<^verbatim>\<open>postGenerate.js\<close>.\<close>

definition cache_report :: "CacheData \<Rightarrow> script_call list" where
  "cache_report cacheGroup =
     [Resolve (Some \<lparr> r_cache = None, r_siteFiles = None, r_watchFiles = None,
                      r_watchGlobs = None,
                      r_outData = JObj (map (\<lambda>(itemName, item). (itemName, expires item)) cacheGroup),
                      r_global = None \<rparr>)]"

definition report_env :: env where
  "report_env = (example_env (\<lambda>c. []))\<lparr>
     runInThisContext := (\<lambda>code pageName cacheGroup. cache_report cacheGroup),
     readFile := (\<lambda>p. if p = ''in/postGenerate.js'' then Some ''resolve({outData: seen(cache)})''
                       else None) \<rparr>"

text \<open>A page with a generate script, queued, and a cache entry with \<^verbatim>\<open>expires: "soon"\<close>; and the
  same page with the cache of three entries.\<close>

definition pageRequest :: ToGenerateData where
  "pageRequest = \<lparr> name = ''page'', generate = ''page'', triggeredBy = [], reason = Modified \<rparr>"

definition invalidCacheExample :: engine where
  "invalidCacheExample = initial_engine\<lparr>
     generateScripts := [(''page'', ''resolve()'')],
     toGenerate := [(''page'', pageRequest)],
     cache := [(''shared'', [(''k'', \<lparr>expires = JStr ''soon'', data = JNull\<rparr>)])]\<rparr>"

definition cachedPageSite :: engine where
  "cachedPageSite = invalidCacheExample\<lparr>
     templates := [(''page'', \<lambda>d. [Text ''page''])],
     cache := cache cacheExample\<rparr>"





text \<open>A site with a scripted page \<^verbatim>\<open>about\<close> whose target \<^verbatim>\<open>about\<close> has no wildcard and a plain
  page \<^verbatim>\<open>home\<close>, both queued; and the same site with a broken template for \<^verbatim>\<open>about\<close>.\<close>

definition aboutRequest :: ToGenerateData where
  "aboutRequest = \<lparr> name = ''about'', generate = ''about'', triggeredBy = [], reason = Modified \<rparr>"

definition homeRequest :: ToGenerateData where
  "homeRequest = \<lparr> name = ''home'', generate = ''home'', triggeredBy = [], reason = Modified \<rparr>"

definition aboutSite :: engine where
  "aboutSite = initial_engine\<lparr>
     generateScripts := [(''about'', ''script'')],
     frontMatter := [(''about'', [(''generate'', JStr ''about'')]),
                     (''home'', [(''generate'', JStr ''home'')])],
     templates := [(''about'', \<lambda>d. [Text ''About us'']), (''home'', \<lambda>d. [Text ''Welcome''])],
     toGenerate := [(''about'', aboutRequest), (''home'', homeRequest)]\<rparr>"






section \<open>Properties\<close>

subsection \<open>Dictionaries and dependency sets\<close>

declare wrapLoop.simps [simp del] entryLoop.simps [simp del]

lemma lookup_remove_same: "lookup (remove d k) k = None"
  by (simp add: lookup_def remove_def delete_conv)

lemma remove_remove: "remove (remove d k) k = remove d k"
  by (simp add: remove_def delete_idem)

lemma lookup_assign: "lookup (assign d k v) k' = (if k' = k then Some v else lookup d k')"
  by (simp add: lookup_def assign_def update_conv')

lemma dep_del_dep_del: "dep_del p (dep_del p deps) = dep_del p deps"
  by (simp add: dep_del_def)

lemma dep_del_not_in: "p \<notin> set (dep_del p deps)"
  by (simp add: dep_del_def)

lemma in_tree_map_dep_del: "\<not> in_tree p (map (\<lambda>(key, deps). (key, dep_del p deps)) tree)"
  by (induction tree) (auto simp: in_tree_def dep_del_def)

lemma map_dep_del_idem:
  "map (\<lambda>(key, deps). (key, dep_del p deps)) (map (\<lambda>(key, deps). (key, dep_del p deps)) tree)
   = map (\<lambda>(key, deps). (key, dep_del p deps)) tree"
  by (induction tree) (auto simp: dep_del_def)

subsection \<open>Removing a template\<close>

text \<open>What \<^verbatim>\<open>processDeletedTemplatePromise\<close> does clean: the path, glob and global-data indexes,
  the queue, the front matter and the shared cache group; and a second removal changes nothing.\<close>

lemma processDeleted_cleans:
  "\<not> in_tree p (pathDepTree (processDeletedTemplatePromise p st)) \<and>
   \<not> in_tree p (wildDepTree (processDeletedTemplatePromise p st)) \<and>
   p \<notin> set (globalDeps (processDeletedTemplatePromise p st)) \<and>
   lookup (toGenerate (processDeletedTemplatePromise p st)) p = None \<and>
   lookup (frontMatter (processDeletedTemplatePromise p st)) p = None"
  by (simp add: processDeletedTemplatePromise_def in_tree_map_dep_del dep_del_not_in
      lookup_remove_same)

lemma processDeleted_idem:
  "processDeletedTemplatePromise p (processDeletedTemplatePromise p st)
   = processDeletedTemplatePromise p st"
  by (simp add: processDeletedTemplatePromise_def remove_remove dep_del_dep_del map_dep_del_idem
      del: map_map)

text \<open>
  \<^bold>\<open>Claim C2\<close> says that after \<^verbatim>\<open>processDeletedTemplatePromise(P)\<close> the page \<open>P\<close> is in no
  dependency index, the template dependency index included. The function has no statement for
  \<^verbatim>\<open>templateDepTree\<close>: once \<^verbatim>\<open>markDependsOn("A", "B")\<close> has recorded that page \<^verbatim>\<open>A\<close> depends on
  \<^verbatim>\<open>B\<close> (as rendering \<^verbatim>\<open>A\<close> inside its wrapper \<^verbatim>\<open>B\<close> does), removing \<^verbatim>\<open>A\<close> leaves \<^verbatim>\<open>A\<close> among the
  dependents of \<^verbatim>\<open>B\<close>.
\<close>

theorem deleted_page_stays_in_templateDepTree:
  "in_tree ''A'' (templateDepTree (markDependsOn ''A'' ''B'' initial_state)) \<and>
   in_tree ''A'' (templateDepTree
      (processDeletedTemplatePromise ''A'' (markDependsOn ''A'' ''B'' initial_state))) \<and>
   dependents_of (templateDepTree
      (processDeletedTemplatePromise ''A'' (markDependsOn ''A'' ''B'' initial_state))) ''B''
     = [''A'']"
  by (simp add: processDeletedTemplatePromise_def markDependsOn_def initial_state_def in_tree_def
      lookup_def assign_def dep_add_def dependents_of_def)

subsection \<open>The shared cache group\<close>

text \<open>
  \<^bold>\<open>Claim C10\<close>: \<^verbatim>\<open>getCacheName\<close> returns \<^verbatim>\<open>"shared"\<close> for every name, so removing any template
  deletes the cache group that every other page and both hooks use: after the removal, the
  group of any name \<open>other\<close> is gone.
\<close>

theorem shared_cache_deleted_with_any_page:
  "getCacheName pageName = ''shared'' \<and>
   lookup (cache (processDeletedTemplatePromise template st)) (getCacheName other) = None"
  by (simp add: processDeletedTemplatePromise_def getCacheName_def lookup_remove_same)

theorem shared_cache_deleted_with_any_page_witness:
  "getCacheName ''PRE_GENERATE'' = ''shared'' \<and>
   lookup (cache cacheExample) (getCacheName ''blog/index'') \<noteq> None \<and>
   lookup (cache (processDeletedTemplatePromise ''about'' cacheExample))
     (getCacheName ''blog/index'') = None"
  using shared_cache_deleted_with_any_page [of "''PRE_GENERATE''" "''about''" cacheExample "''blog/index''"]
  by (simp add: cacheExample_def initial_engine_def lookup_def getCacheName_def)

subsection \<open>The global-data accessor\<close>

text \<open>What a read through the accessor does: it fails when the value stored under the key is
  falsy, and then leaves the state as it was; otherwise it records the page among the
  global-data dependents and returns the stored value.\<close>

lemma global_read_result:
  "(\<not> truthy (read_prop (globalData st) key) \<longrightarrow>
      global_read p key st
        = (Threw (mkError (''Accessing undefined global data Element: '' @ key)), st)) \<and>
   (truthy (read_prop (globalData st) key) \<longrightarrow>
      global_read p key st
        = (Ok (read_prop (globalData st) key), st\<lparr>globalDeps := dep_add p (globalDeps st)\<rparr>)
      \<and> p \<in> set (globalDeps (snd (global_read p key st))))"
  by (simp add: global_read_def getGlobalDataAccessProxy_def dep_add_def)

text \<open>A key that is missing, a key that is defined, and a key that the global data does not
  define but every object inherits.\<close>

lemma global_read_examples:
  "fst (global_read ''page'' ''missing'' globalsExample)
     = Threw (mkError ''Accessing undefined global data Element: missing'') \<and>
   globalDeps (snd (global_read ''page'' ''missing'' globalsExample)) = [] \<and>
   fst (global_read ''page'' ''title'' globalsExample) = Ok (JStr ''Site'') \<and>
   globalDeps (snd (global_read ''page'' ''title'' globalsExample)) = [''page''] \<and>
   fst (global_read ''page'' ''toString'' globalsExample) = Ok (JInherited ''toString'') \<and>
   globalDeps (snd (global_read ''page'' ''toString'' globalsExample)) = [''page'']"
  using global_read_result [of globalsExample "''missing''" "''page''"]
    global_read_result [of globalsExample "''title''" "''page''"]
    global_read_result [of globalsExample "''toString''" "''page''"]
  by (simp add: globalsExample_def initial_engine_def lookup_def read_prop_def
      object_prototype_keys_def dep_add_def)

text \<open>
  \<^bold>\<open>Claim C3\<close> says that a read of \<open>K\<close> fails exactly when \<open>K\<close> is not a key of the global data.
  The handler tests \<^verbatim>\<open>!state.globalData[K]\<close>, so a key whose value is falsy fails too, with a
  message that calls the element undefined. Here the global data is
  \<^verbatim>\<open>{title: "Site", count: 0}\<close>: \<^verbatim>\<open>count\<close> is a key, and reading it throws (the page is not
  recorded as a dependent).
\<close>

theorem global_read_zero_throws:
  "lookup (globalData globalsExample) ''count'' = Some (JNum 0) \<and>
   global_read ''page'' ''count'' globalsExample
     = (Threw (mkError ''Accessing undefined global data Element: count''), globalsExample)"
  by (simp add: globalsExample_def initial_engine_def global_read_def getGlobalDataAccessProxy_def
      lookup_def read_prop_def)

subsection \<open>Rendering\<close>

lemma wrapper_of_markDependsOn [simp]: "wrapper_of (markDependsOn t d st) p = wrapper_of st p"
  by (simp add: wrapper_of_def markDependsOn_def Let_def)

lemma templates_markDependsOn [simp]: "templates (markDependsOn t d st) = templates st"
  "frontMatter (markDependsOn t d st) = frontMatter st"
  by (simp_all add: markDependsOn_def Let_def)

lemma dependents_markDependsOn:
  "dependents_of (templateDepTree (markDependsOn t d st)) k =
     (if k = d then dep_add t (dependents_of (templateDepTree st) k)
      else dependents_of (templateDepTree st) k)"
  by (auto simp: markDependsOn_def Let_def dependents_of_def lookup_assign dep_add_def
      split: option.splits)

lemma wrapLoop_done:
  "wrapper_of st wrapCheck = None \<Longrightarrow>
   wrapLoop fuel current wrapCheck wrapper wrapStack st = Some (wrapper, wrapStack, st)"
  by (subst wrapLoop.simps) simp

lemma wrapLoop_step:
  "wrapper_of st wrapCheck = Some w \<Longrightarrow>
   wrapLoop (Suc n) current wrapCheck wrapper wrapStack st =
     wrapLoop n current w w (wrapStack @ [wrapCheck]) (markDependsOn current w st)"
  by (subst wrapLoop.simps) simp

lemma only_deps_refl [simp]: "only_deps st st"
  by (simp add: only_deps_def)

lemma only_deps_markDependsOn [simp]: "only_deps st (markDependsOn t d st)"
  by (simp add: only_deps_def markDependsOn_def Let_def)

lemma only_deps_trans: "only_deps a b \<Longrightarrow> only_deps b c \<Longrightarrow> only_deps a c"
proof -
  assume ab: "only_deps a b" and bc: "only_deps b c"
  from bc have "c = b\<lparr>templateDepTree := templateDepTree c\<rparr>" by (simp add: only_deps_def)
  also from ab have "b = a\<lparr>templateDepTree := templateDepTree b\<rparr>" by (simp add: only_deps_def)
  finally have "c = a\<lparr>templateDepTree := templateDepTree c\<rparr>" by simp
  then show ?thesis by (simp add: only_deps_def)
qed

lemma only_deps_fs:
  fixes st :: engine
  assumes "only_deps st st'"
  shows "fs st' = fs st" and "errorCount st' = errorCount st" and "outputData st' = outputData st"
    and "toRender st' = toRender st" and "resolved st' = resolved st"
proof -
  from assms have eq: "st' = st\<lparr>templateDepTree := templateDepTree st'\<rparr>" by (simp add: only_deps_def)
  show "fs st' = fs st" by (subst eq) simp
  show "errorCount st' = errorCount st" by (subst eq) simp
  show "outputData st' = outputData st" by (subst eq) simp
  show "toRender st' = toRender st" by (subst eq) simp
  show "resolved st' = resolved st" by (subst eq) simp
qed

lemma wrapLoop_only_deps:
  "wrapLoop fuel cur wc w ws st = Some (w', ws', st') \<Longrightarrow> only_deps st st'"
proof (induction fuel arbitrary: wc w ws st)
  case 0
  then show ?case by (subst (asm) wrapLoop.simps) (auto split: option.splits)
next
  case (Suc n)
  show ?case
  proof (cases "wrapper_of st wc")
    case None
    with Suc.prems show ?thesis by (subst (asm) wrapLoop.simps) simp
  next
    case (Some x)
    with Suc.prems have "wrapLoop n cur x x (ws @ [wc]) (markDependsOn cur x st) = Some (w', ws', st')"
      by (subst (asm) wrapLoop.simps) simp
    from Suc.IH[OF this] show ?thesis
      using only_deps_trans only_deps_markDependsOn by blast
  qed
qed

lemma renderParts_only_deps_aux:
  assumes Q: "\<And>parent ws pd cur inc (st::'a TemplerData_scheme) r st'.
      renderRecursive n parent ws pd cur inc st = Some (r, st') \<Longrightarrow> only_deps st st'"
  shows "renderParts n parent ws pd parts (st::'a TemplerData_scheme) = Some (r, st') \<Longrightarrow> only_deps st st'"
proof (induction parts arbitrary: ws st r st')
  case Nil
  then show ?case by simp
next
  case (Cons p parts)
  show ?case
  proof (cases p)
    case (Text s)
    with Cons.prems obtain r1 where "renderParts n parent ws pd parts st = Some (r1, st')"
      by (auto split: option.splits prod.splits outcome.splits)
    from Cons.IH[OF this] show ?thesis .
  next
    case (Include c d)
    with Cons.prems obtain r1 st1 where
      1: "renderRecursive n parent ws pd c d st = Some (r1, st1)"
      by (auto split: option.splits prod.splits outcome.splits)
    from Q[OF 1] have a: "only_deps st st1" .
    show ?thesis
    proof (cases r1)
      case (Threw err)
      with 1 Include Cons.prems have "st' = st1" by simp
      with a show ?thesis by simp
    next
      case (Ok x)
      obtain out ws1 where x: "x = (out, ws1)" by (cases x)
      with Ok 1 Include Cons.prems obtain r2 where
        "renderParts n parent ws1 pd parts st1 = Some (r2, st')"
        by (auto split: option.splits prod.splits outcome.splits)
      from Cons.IH[OF this] a show ?thesis using only_deps_trans by blast
    qed
  qed
qed

lemma renderRecursive_only_deps:
  "renderRecursive n parent ws pd cur inc (st::'a TemplerData_scheme) = Some (r, st') \<Longrightarrow> only_deps st st'"
proof (induction n arbitrary: parent ws pd cur inc st r st')
  case 0
  then show ?case by simp
next
  case (Suc n)
  have R: "only_deps s s'" if "renderParts n p w d ps s = Some (q, s')"
    for p w d ps q and s s' :: "'a TemplerData_scheme"
    using that by (rule renderParts_only_deps_aux[rotated]) (rule Suc.IH)
  show ?case
  proof (cases "cur = ''_body''")
    case True
    show ?thesis
    proof (cases "ws = []")
      case True
      with \<open>cur = ''_body''\<close> Suc.prems show ?thesis by simp
    next
      case False
      show ?thesis
      proof (cases "lookup (templates st) (last ws)")
        case None
        with False \<open>cur = ''_body''\<close> Suc.prems show ?thesis by (simp add: Let_def)
      next
        case (Some t)
        with False \<open>cur = ''_body''\<close> Suc.prems obtain pd' where
          "renderParts n parent (butlast ws) pd' (t pd') st = Some (r, st')"
          by (simp add: Let_def)
        from R[OF this] show ?thesis .
      qed
    qed
  next
    case False
    with Suc.prems obtain c1 ws1 st1 where
      w: "wrapLoop n cur cur cur [] (markDependsOn parent cur st) = Some (c1, ws1, st1)"
      by (auto split: option.splits)
    from wrapLoop_only_deps[OF w] have a: "only_deps st st1"
      using only_deps_trans only_deps_markDependsOn by blast
    show ?thesis
    proof (cases "lookup (templates st1) c1")
      case None
      with False w Suc.prems have "st' = st1" by (simp add: Let_def)
      with a show ?thesis by simp
    next
      case (Some t)
      with False w Suc.prems obtain pd' r1 where
        "renderParts n parent ws1 pd' (t pd') st1 = Some (r1, st')"
        by (auto simp: Let_def split: option.splits prod.splits outcome.splits)
      from R[OF this] a show ?thesis using only_deps_trans by blast
    qed
  qed
qed


text \<open>
  \<^bold>\<open>Claim C8\<close> says that rendering \<open>A\<close> (wrapper \<open>B\<close>, whose wrapper is \<open>C\<close>) records the edges
  \<open>A\<close> depends on \<open>B\<close> and \<open>B\<close> depends on \<open>C\<close>. The loop that resolves the chain calls
  \<^verbatim>\<open>markDependsOn(current, wrapper)\<close> with \<open>current\<close> still the page the render started from:
  the output is nested as claimed, but the dependents of \<open>C\<close> are \<open>A\<close>, not \<open>B\<close>.
\<close>

theorem wrapper_chain_counterexample:
  "(case renderRecursive 3 ''A'' [] [] ''A'' None pagesABC of
      Some (Ok (out, _), st') \<Rightarrow>
        out = ''<c><b>a</b></c>'' \<and>
        templateDepTree st' = [(''A'', [''A'']), (''B'', [''A'']), (''C'', [''A''])] \<and>
        ''B'' \<notin> set (dependents_of (templateDepTree st') ''C'')
    | _ \<Rightarrow> False)"
  by code_simp


text \<open>
  \<^bold>\<open>Claim C8, amended\<close>: for \<open>A\<close> wrapped by \<open>B\<close>, \<open>B\<close> wrapped by \<open>C\<close> and \<open>C\<close> not wrapped,
  with a body slot in the templates of \<open>B\<close> and \<open>C\<close>, rendering \<open>A\<close> returns the text of \<open>C\<close>
  around the text of \<open>B\<close> around the content of \<open>A\<close>, and records \<open>A\<close> as a dependent of \<open>B\<close>
  and of \<open>C\<close>; it adds nothing else to the dependents of \<open>B\<close> and \<open>C\<close>.
\<close>

theorem wrapper_chain:
  assumes A: "A \<noteq> ''_body''"
    and wA: "wrapper_of st A = Some B" and wB: "wrapper_of st B = Some C"
    and wC: "wrapper_of st C = None"
    and tA: "lookup (templates st) A = Some (\<lambda>d. [Text a])"
    and tB: "lookup (templates st) B = Some (\<lambda>d. [Text b1, Include ''_body'' None, Text b2])"
    and tC: "lookup (templates st) C = Some (\<lambda>d. [Text c1, Include ''_body'' None, Text c2])"
  shows "\<exists>st'. renderRecursive (Suc (Suc (Suc n))) A [] passed A None st
              = Some (Ok (c1 @ b1 @ a @ b2 @ c2, []), st')
           \<and> dependents_of (templateDepTree st') B = dep_add A (dependents_of (templateDepTree st) B)
           \<and> dependents_of (templateDepTree st') C = dep_add A (dependents_of (templateDepTree st) C)"
proof -
  let ?st' = "markDependsOn A C (markDependsOn A B (markDependsOn A A st))"
  from wA wB wC have ne: "A \<noteq> B" "B \<noteq> C" "A \<noteq> C" by auto
  have loop: "wrapLoop (Suc (Suc n)) A A A [] (markDependsOn A A st) = Some (C, [A, B], ?st')"
    using wA wB wC by (simp add: wrapLoop_step wrapLoop_done)
  have "renderRecursive (Suc (Suc (Suc n))) A [] passed A None st
          = Some (Ok (c1 @ b1 @ a @ b2 @ c2, []), ?st')"
    using A tA tB tC by (simp add: loop)
  moreover have "dependents_of (templateDepTree ?st') B = dep_add A (dependents_of (templateDepTree st) B)"
    using ne by (simp add: dependents_markDependsOn)
  moreover have "dependents_of (templateDepTree ?st') C = dep_add A (dependents_of (templateDepTree st) C)"
    using ne by (simp add: dependents_markDependsOn)
  ultimately show ?thesis by blast
qed

theorem wrapper_chain_witness:
  "\<exists>st'. renderRecursive 3 ''A'' [] [] ''A'' None pagesABC
              = Some (Ok (''<c><b>a</b></c>'', []), st')
           \<and> dependents_of (templateDepTree st') ''B'' = [''A'']
           \<and> dependents_of (templateDepTree st') ''C'' = [''A'']"
proof -
  have 1: "wrapper_of pagesABC ''A'' = Some ''B''" "wrapper_of pagesABC ''B'' = Some ''C''"
    "wrapper_of pagesABC ''C'' = None"
    by (simp_all add: pagesABC_def initial_engine_def wrapper_of_def lookup_def string_entry_def read_prop_def object_prototype_keys_def)
  have 2: "lookup (templates pagesABC) ''A'' = Some (\<lambda>d. [Text ''a''])"
    "lookup (templates pagesABC) ''B'' = Some (\<lambda>d. [Text ''<b>'', Include ''_body'' None, Text ''</b>''])"
    "lookup (templates pagesABC) ''C'' = Some (\<lambda>d. [Text ''<c>'', Include ''_body'' None, Text ''</c>''])"
    by (simp_all add: pagesABC_def initial_engine_def lookup_def)
  have 3: "dependents_of (templateDepTree pagesABC) k = []" for k
    by (simp add: pagesABC_def initial_engine_def dependents_of_def lookup_def)
  have "''A'' \<noteq> ''_body''" by simp
  from wrapper_chain [OF this 1 2, of 0 "[]"] show ?thesis
    by (simp add: 3 dep_add_def numeral_3_eq_3)
qed


subsection \<open>Cache expiry\<close>

lemma expireGroup_invalid:
  "item \<in> set (map snd g) \<Longrightarrow> invalid_expiry e item \<Longrightarrow> \<exists>err. fst (expireGroup e n g) = Some err"
proof (induction g)
  case Nil
  then show ?case by simp
next
  case (Cons a g)
  obtain k i where a: "a = (k, i)" by (cases a)
  show ?case
  proof (cases "item = i")
    case True
    with Cons.prems a show ?thesis by (simp add: invalid_expiry_def)
  next
    case False
    with Cons.prems a have "item \<in> set (map snd g)" by auto
    from Cons.IH[OF this Cons.prems(2)] a show ?thesis
      by (auto split: option.splits prod.splits)
  qed
qed

lemma expireGroups_invalid:
  "\<exists>item \<in> set (cache_items c). invalid_expiry e item \<Longrightarrow> \<exists>err. fst (expireGroups e c) = Some err"
proof (induction c)
  case Nil
  then show ?case by (simp add: cache_items_def)
next
  case (Cons a c)
  obtain n g where a: "a = (n, g)" by (cases a)
  show ?case
  proof (cases "fst (expireGroup e n g)")
    case None
    then have "\<not> (\<exists>item \<in> set (map snd g). invalid_expiry e item)"
      using expireGroup_invalid[of _ g e n] by fastforce
    with Cons.prems a have "\<exists>item \<in> set (cache_items c). invalid_expiry e item"
      by (auto simp: cache_items_def)
    from Cons.IH[OF this] None a show ?thesis
      by (auto split: prod.splits option.splits)
  next
    case (Some err)
    with a show ?thesis by (auto split: prod.splits option.splits)
  qed
qed

lemma expireCache_invalid:
  "\<exists>item \<in> set (cache_items (cache st)). invalid_expiry e item \<Longrightarrow> \<exists>err. fst (expireCache e st) = Threw err"
  using expireGroups_invalid[of "cache st" e]
  by (auto simp: expireCache_def split: prod.splits option.splits)

lemma cache_items_assign_new:
  "lookup c k = None \<Longrightarrow> cache_items (assign c k []) = cache_items c"
  by (induction c) (auto simp: cache_items_def lookup_def assign_def)

lemma getGenerateScript_same:
  "generateScripts st' = generateScripts st \<Longrightarrow> generateScriptRefs st' = generateScriptRefs st \<Longrightarrow>
   getGenerateScript n st' = getGenerateScript n st"
  unfolding getGenerateScript_def by presburger

lemma dispatch_invalid:
  assumes s: "getGenerateScript (name gd) st \<noteq> []"
    and i: "\<exists>item \<in> set (cache_items (cache st)). invalid_expiry e item"
  shows "\<exists>err st'. dispatch e fuel gd st = Some (Threw err, st')"
proof -
  let ?st = "st\<lparr>toGenerate := remove (toGenerate st) (name gd)\<rparr>"
  let ?st1 = "ensureCacheGroup (getCacheName (name gd)) ?st"
  have g: "getGenerateScript (name gd) ?st \<noteq> []"
    using s getGenerateScript_same[of ?st st "name gd"] by simp
  have "cache_items (cache ?st1) = cache_items (cache st)"
    by (auto simp: ensureCacheGroup_def cache_items_assign_new split: option.splits)
  with i have "\<exists>item \<in> set (cache_items (cache ?st1)). invalid_expiry e item" by simp
  from expireCache_invalid[OF this] obtain err where "fst (expireCache e ?st1) = Threw err" ..
  then obtain st2 where x: "expireCache e ?st1 = (Threw err, st2)"
    by (cases "expireCache e ?st1") auto
  have "runGenerateScript e fuel gd ?st = Some (Threw err, st2)"
    unfolding runGenerateScript_def Let_def x by simp
  with g have "dispatch e fuel gd st = Some (Threw err, st2)"
    unfolding dispatch_def Let_def by simp
  then show ?thesis by blast
qed

lemma expireGroup_exact:
  "\<forall>item \<in> set (map snd g). \<not> invalid_expiry e item \<Longrightarrow> expireGroup e n g = (None, purge_group e g)"
proof (induction g)
  case Nil
  then show ?case by (simp add: purge_group_def)
next
  case (Cons a g)
  obtain k i where a: "a = (k, i)" by (cases a)
  from Cons.prems a have v: "\<not> invalid_expiry e i"
    and rest: "\<forall>item \<in> set (map snd g). \<not> invalid_expiry e item" by auto
  note ih = Cons.IH[OF rest]
  have pg: "purge_group e ((k, i) # g) = (if past_expiry e i then purge_group e g else (k, i) # purge_group e g)"
    by (simp add: purge_group_def)
  show ?case
  proof (cases "truthy (expires i)")
    case False
    then have "\<not> past_expiry e i" by (simp add: past_expiry_def)
    with False ih a pg show ?thesis by simp
  next
    case True
    with v obtain x where x: "toNumber e (expires i) = Some x"
      by (auto simp: invalid_expiry_def)
    with True have "past_expiry e i = (getTime e > x)" by (simp add: past_expiry_def)
    with True x ih a pg show ?thesis by simp
  qed
qed

lemma expireGroups_exact:
  "\<forall>item \<in> set (cache_items c). \<not> invalid_expiry e item \<Longrightarrow> expireGroups e c = (None, purge e c)"
proof (induction c)
  case Nil
  then show ?case by (simp add: purge_def)
next
  case (Cons a c)
  obtain n g where a: "a = (n, g)" by (cases a)
  from Cons.prems a have 1: "\<forall>item \<in> set (map snd g). \<not> invalid_expiry e item"
    and 2: "\<forall>item \<in> set (cache_items c). \<not> invalid_expiry e item"
    by (auto simp: cache_items_def)
  from expireGroup_exact[OF 1, of n] Cons.IH[OF 2] a show ?case
    by (simp add: purge_def)
qed

lemma expireCache_exact:
  assumes "\<forall>item \<in> set (cache_items (cache st)). \<not> invalid_expiry e item"
  shows "expireCache e st = (Ok (), st\<lparr>cache := purge e (cache st)\<rparr>)"
  using expireGroups_exact[OF assms] by (simp add: expireCache_def)

lemma lookup_purge: "lookup (purge e c) n = map_option (purge_group e) (lookup c n)"
  by (induction c) (auto simp: purge_def lookup_def)

lemma cache_group_purge:
  "cache_group p (st\<lparr>cache := purge e (cache st)\<rparr>) = purge_group e (cache_group p st)"
  by (simp add: cache_group_def lookup_purge purge_group_def split: option.splits)

lemma cache_group_ensure:
  "cache_group p (ensureCacheGroup (getCacheName p) st) = cache_group p st"
  by (simp add: cache_group_def ensureCacheGroup_def lookup_assign split: option.splits)

lemma dispatch_scripted:
  assumes s: "getGenerateScript (name gd) st \<noteq> []"
    and v: "\<forall>item \<in> set (cache_items (cache st)). \<not> invalid_expiry e item"
  shows "dispatch e fuel gd st
           = runScriptText e fuel gd (getGlobalDataAccessProxy (name gd) st) (script_start e gd st)"
proof -
  let ?st = "st\<lparr>toGenerate := remove (toGenerate st) (name gd)\<rparr>"
  let ?st1 = "ensureCacheGroup (getCacheName (name gd)) ?st"
  have g: "getGenerateScript (name gd) ?st \<noteq> []"
    using s getGenerateScript_same[of ?st st "name gd"] by simp
  have "cache_items (cache ?st1) = cache_items (cache st)"
    by (auto simp: ensureCacheGroup_def cache_items_assign_new split: option.splits)
  with v have "\<forall>item \<in> set (cache_items (cache ?st1)). \<not> invalid_expiry e item" by simp
  from expireCache_exact[OF this] have x: "expireCache e ?st1 = (Ok (), script_start e gd st)"
    by (simp add: script_start_def Let_def)
  have ig: "getGlobalDataAccessProxy (name gd) ?st1 = getGlobalDataAccessProxy (name gd) st"
    by (simp add: getGlobalDataAccessProxy_def ensureCacheGroup_def split: option.splits)
  have "runGenerateScript e fuel gd ?st
          = runScriptText e fuel gd (getGlobalDataAccessProxy (name gd) st) (script_start e gd st)"
    unfolding runGenerateScript_def Let_def x ig by simp
  with g show ?thesis unfolding dispatch_def Let_def by simp
qed

lemma script_start_cache_group:
  "cache_group n (script_start e gd st) = purge_group e (cache_group n st)"
proof -
  let ?st = "st\<lparr>toGenerate := remove (toGenerate st) (name gd)\<rparr>"
  have "cache_group n (script_start e gd st)
          = purge_group e (cache_group n (ensureCacheGroup (getCacheName (name gd)) ?st))"
    unfolding script_start_def Let_def by (rule cache_group_purge)
  also have "cache_group n (ensureCacheGroup (getCacheName (name gd)) ?st) = cache_group n ?st"
    using cache_group_ensure[of n ?st] by (simp add: getCacheName_def)
  also have "cache_group n ?st = cache_group n st" by (simp add: cache_group_def)
  finally show ?thesis .
qed

lemma script_start_script:
  "getGenerateScript n (script_start e gd st) = getGenerateScript n st"
  by (rule getGenerateScript_same)
     (simp_all add: script_start_def Let_def ensureCacheGroup_def split: option.splits)

lemma scriptBody_start:
  "scriptBody e gd (script_start e gd st)
     = runInThisContext e (getGenerateScript (name gd) st) (name gd)
         (purge_group e (cache_group (name gd) st))"
  by (simp add: scriptBody_def script_start_cache_group script_start_script)

lemma dispatchAll_invalid:
  assumes s: "getGenerateScript (name gd) st \<noteq> []"
    and i: "\<exists>item \<in> set (cache_items (cache st)). invalid_expiry e item"
  shows "\<exists>err st'. dispatch e fuel gd st = Some (Threw err, st') \<and>
            dispatchAll e fuel (gd # queue) st = Some (Threw err, st')"
proof -
  from dispatch_invalid[OF s i] obtain err st' where
    "dispatch e fuel gd st = Some (Threw err, st')" by blast
  then show ?thesis by simp
qed

text \<open>
  \<^bold>\<open>Claim C9\<close> says that an entry past its expiry is gone before the next script of the run
  that could read it, and that an entry with a non-numeric \<^verbatim>\<open>expires\<close> makes the scan fail. The
  cache below holds \<^verbatim>\<open>old\<close> (expired at \<open>500\<close>, the clock is at \<open>1000\<close>), \<^verbatim>\<open>fresh\<close>, and \<^verbatim>\<open>flag\<close>
  with \<^verbatim>\<open>expires: true\<close>. The scan skips an entry whose \<^verbatim>\<open>expires\<close> is falsy and tests the others
  with \<^verbatim>\<open>isNaN\<close>, which converts its argument first: \<^verbatim>\<open>true\<close> converts to \<open>1\<close>, so \<^verbatim>\<open>flag\<close> is
  taken for expired and deleted, and the scan returns normally. And only \<^verbatim>\<open>generatePages\<close> calls
  the scan: the post-generation script, which here reports the entries of the cache group it is
  handed, finds \<^verbatim>\<open>old\<close> among them.
\<close>

theorem expires_true_counterexample:
  "map (\<lambda>(itemName, item). (itemName, expires item)) (concat (map snd (cache cacheExample)))
     = [(''old'', JNum 500), (''fresh'', JNum 2000), (''flag'', JBool True)] \<and>
   getTime report_env = 1000 \<and>
   fst (expireCache report_env cacheExample) = Ok () \<and>
   cache (snd (expireCache report_env cacheExample))
     = [(''shared'', [(''fresh'', \<lparr>expires = JNum 2000, data = JNull\<rparr>)])] \<and>
   (case processPostGenerate report_env cacheExample of
      (p, st') \<Rightarrow>
        p = Fulfilled \<and>
        outData (outputData st')
          = [(''postGenerate.js'',
              JObj [(''old'', JNum 500), (''fresh'', JNum 2000), (''flag'', JBool True)])])"
  by code_simp

text \<open>
  \<^bold>\<open>Claim C9, amended\<close>, for generate scripts. When no entry of the cache has an \<^verbatim>\<open>expires\<close>
  that is set (truthy) and does not convert to a number, the scan returns and leaves the cache
  without the entries whose \<^verbatim>\<open>expires\<close> is set and converts to a time stamp before now, every
  other entry kept, in its place; the dispatch of a request with a generate script then runs
  the script body on the cache group purged in this way. When some entry has an \<^verbatim>\<open>expires\<close> that
  is set and does not convert to a number, the scan throws; the dispatch of a request with a
  generate script does not catch it, and the loop over the queue ends there. An entry whose
  \<^verbatim>\<open>expires\<close> is falsy is neither expired nor invalid.
\<close>

theorem expireCache_purges_or_throws:
  "((\<forall>item \<in> set (cache_items (cache st)). \<not> invalid_expiry e item) \<longrightarrow>
      expireCache e st = (Ok (), st\<lparr>cache := purge e (cache st)\<rparr>) \<and>
      (getGenerateScript (name gd) st \<noteq> [] \<longrightarrow>
         dispatch e fuel gd st
           = runScriptText e fuel gd (getGlobalDataAccessProxy (name gd) st) (script_start e gd st) \<and>
         scriptBody e gd (script_start e gd st)
           = runInThisContext e (getGenerateScript (name gd) st) (name gd)
               (purge_group e (cache_group (name gd) st)))) \<and>
   ((\<exists>item \<in> set (cache_items (cache st)). invalid_expiry e item) \<longrightarrow>
      (\<exists>err. fst (expireCache e st) = Threw err) \<and>
      (getGenerateScript (name gd) st \<noteq> [] \<longrightarrow>
         (\<exists>err st'. dispatch e fuel gd st = Some (Threw err, st') \<and>
            dispatchAll e fuel (gd # queue) st = Some (Threw err, st')))) \<and>
   (\<not> truthy (expires item) \<longrightarrow> \<not> past_expiry e item \<and> \<not> invalid_expiry e item)"
proof (intro conjI impI)
  assume v: "\<forall>item \<in> set (cache_items (cache st)). \<not> invalid_expiry e item"
  then show "expireCache e st = (Ok (), st\<lparr>cache := purge e (cache st)\<rparr>)"
    by (rule expireCache_exact)
  assume s: "getGenerateScript (name gd) st \<noteq> []"
  from s v show "dispatch e fuel gd st
           = runScriptText e fuel gd (getGlobalDataAccessProxy (name gd) st) (script_start e gd st)"
    by (rule dispatch_scripted)
  show "scriptBody e gd (script_start e gd st)
           = runInThisContext e (getGenerateScript (name gd) st) (name gd)
               (purge_group e (cache_group (name gd) st))"
    by (rule scriptBody_start)
next
  assume i: "\<exists>item \<in> set (cache_items (cache st)). invalid_expiry e item"
  then show "\<exists>err. fst (expireCache e st) = Threw err" by (rule expireCache_invalid)
  assume s: "getGenerateScript (name gd) st \<noteq> []"
  from s i show "\<exists>err st'. dispatch e fuel gd st = Some (Threw err, st') \<and>
            dispatchAll e fuel (gd # queue) st = Some (Threw err, st')"
    by (rule dispatchAll_invalid)
next
  assume "\<not> truthy (expires item)"
  then show "\<not> past_expiry e item" by (simp add: past_expiry_def)
next
  assume "\<not> truthy (expires item)"
  then show "\<not> invalid_expiry e item" by (simp add: invalid_expiry_def)
qed

lemma cached_eval:
  "(case dispatch report_env 3 pageRequest cachedPageSite of
      Some (r, st') \<Rightarrow>
        r = Ok () \<and> outData (outputData st') = [(''page'', JObj [(''fresh'', JNum 2000)])] \<and>
        fs st' = [MkdirSync ''./out/page'', WriteFile ''/site/out/page/index.html'' ''page'']
    | None \<Rightarrow> False)"
  by code_simp

text \<open>The cache of three entries, the cache with \<^verbatim>\<open>expires: "soon"\<close>, and an entry with
  \<^verbatim>\<open>expires: 0\<close>.\<close>

theorem expireCache_purges_or_throws_witness:
  "expireCache report_env cachedPageSite
     = (Ok (), cachedPageSite\<lparr>cache := [(''shared'', [(''fresh'', \<lparr>expires = JNum 2000, data = JNull\<rparr>)])]\<rparr>) \<and>
   scriptBody report_env pageRequest (script_start report_env pageRequest cachedPageSite)
     = cache_report [(''fresh'', \<lparr>expires = JNum 2000, data = JNull\<rparr>)] \<and>
   (case dispatch report_env 3 pageRequest cachedPageSite of
      Some (r, st') \<Rightarrow>
        r = Ok () \<and> outData (outputData st') = [(''page'', JObj [(''fresh'', JNum 2000)])] \<and>
        fs st' = [MkdirSync ''./out/page'', WriteFile ''/site/out/page/index.html'' ''page'']
    | None \<Rightarrow> False) \<and>
   (\<exists>err. fst (expireCache report_env invalidCacheExample) = Threw err) \<and>
   (\<exists>err st'. dispatch report_env 3 pageRequest invalidCacheExample = Some (Threw err, st') \<and>
      dispatchAll report_env 3 [pageRequest, homeRequest] invalidCacheExample = Some (Threw err, st')) \<and>
   \<not> past_expiry report_env \<lparr>expires = JNum 0, data = JNull\<rparr> \<and>
   \<not> invalid_expiry report_env \<lparr>expires = JNum 0, data = JNull\<rparr>"
proof -
  let ?e = "report_env"
  have v: "list_all (\<lambda>item. \<not> invalid_expiry ?e item) (cache_items (cache cachedPageSite))"
    by code_simp
  then have v': "\<forall>item \<in> set (cache_items (cache cachedPageSite)). \<not> invalid_expiry ?e item"
    by (simp add: list_all_iff)
  have inv: "list_ex (invalid_expiry ?e) (cache_items (cache invalidCacheExample))" by code_simp
  then have inv': "\<exists>item \<in> set (cache_items (cache invalidCacheExample)). invalid_expiry ?e item"
    by (simp add: list_ex_iff)
  have scr: "getGenerateScript (name pageRequest) cachedPageSite \<noteq> []"
    "getGenerateScript (name pageRequest) invalidCacheExample \<noteq> []" by code_simp+
  have pg: "purge ?e (cache cachedPageSite)
              = [(''shared'', [(''fresh'', \<lparr>expires = JNum 2000, data = JNull\<rparr>)])]" by code_simp
  have grp: "purge_group ?e (cache_group (name pageRequest) cachedPageSite)
              = [(''fresh'', \<lparr>expires = JNum 2000, data = JNull\<rparr>)]" by code_simp
  have run: "runInThisContext ?e code pageName g = cache_report g" for code pageName g
    by (simp add: report_env_def)
  have falsy: "\<not> truthy (expires \<lparr>expires = JNum 0, data = JNull\<rparr>)" by simp
  note a = expireCache_purges_or_throws [of cachedPageSite ?e pageRequest 3 "[homeRequest]"
      "\<lparr>expires = JNum 0, data = JNull\<rparr>"]
  note b = expireCache_purges_or_throws [of invalidCacheExample ?e pageRequest 3 "[homeRequest]"
      "\<lparr>expires = JNum 0, data = JNull\<rparr>"]
  from a v' have 1: "expireCache ?e cachedPageSite
     = (Ok (), cachedPageSite\<lparr>cache := [(''shared'', [(''fresh'', \<lparr>expires = JNum 2000, data = JNull\<rparr>)])]\<rparr>)"
    by (simp add: pg)
  from a v' scr have 2: "scriptBody ?e pageRequest (script_start ?e pageRequest cachedPageSite)
     = cache_report [(''fresh'', \<lparr>expires = JNum 2000, data = JNull\<rparr>)]"
    by (simp add: grp run)
  from b inv' have 3: "\<exists>err. fst (expireCache ?e invalidCacheExample) = Threw err" by blast
  from b inv' scr have 4: "\<exists>err st'. dispatch ?e 3 pageRequest invalidCacheExample = Some (Threw err, st') \<and>
      dispatchAll ?e 3 [pageRequest, homeRequest] invalidCacheExample = Some (Threw err, st')" by blast
  from a falsy have 5: "\<not> past_expiry ?e \<lparr>expires = JNum 0, data = JNull\<rparr>"
    "\<not> invalid_expiry ?e \<lparr>expires = JNum 0, data = JNull\<rparr>" by blast+
  from 1 2 cached_eval 3 4 5 show ?thesis by blast
qed

subsection \<open>Output containment\<close>

lemma writes_checked_same: "fs st' = fs st \<Longrightarrow> writes_checked e st st'"
  by (simp add: writes_checked_def checked_calls_def)

lemma writes_checked_iff:
  "writes_checked e st st' \<longleftrightarrow> (\<exists>calls. fs st' = fs st @ calls \<and> checked_calls e calls)"
proof
  assume "writes_checked e st st'"
  then have "fs st' = fs st @ drop (length (fs st)) (fs st')" "checked_calls e (drop (length (fs st)) (fs st'))"
    unfolding writes_checked_def by (metis append_take_drop_id, simp)
  then show "\<exists>calls. fs st' = fs st @ calls \<and> checked_calls e calls" by blast
next
  assume "\<exists>calls. fs st' = fs st @ calls \<and> checked_calls e calls"
  then show "writes_checked e st st'" by (auto simp: writes_checked_def)
qed

lemma writes_checked_trans:
  "writes_checked e a b \<Longrightarrow> writes_checked e b c \<Longrightarrow> writes_checked e a c"
  unfolding writes_checked_iff by (auto simp: checked_calls_def)

lemma writes_checked_from: "fs a' = fs a \<Longrightarrow> writes_checked e a' b \<Longrightarrow> writes_checked e a b"
  by (simp add: writes_checked_def)

lemma safeOutputCheck_checked:
  "call_path (func p) = p \<Longrightarrow> writes_checked e st (snd (safeOutputCheck e func (outputDir e) p st))"
  by (simp add: safeOutputCheck_def writes_checked_def checked_calls_def)

lemma writeFileSafe_checked: "writes_checked e st (snd (writeFileSafe e p content st))"
  by (simp add: writeFileSafe_def safeOutputCheck_checked)

lemma mkdirSyncSafe_checked: "writes_checked e st (snd (mkdirSyncSafe e p st))"
  by (simp add: mkdirSyncSafe_def safeOutputCheck_checked)

lemma ensureDir_checked: "writes_checked e st (snd (ensureDir e p st))"
  by (simp add: ensureDir_def mkdirSyncSafe_checked writes_checked_same)

lemma writeEntryScript_checked:
  "writes_checked e st (snd (writeEntryScript e template script pagePath scriptName st))"
proof -
  let ?wp = "''./'' @ path_join e [outputDir e, ''/'', pagePath]"
  obtain r1 st1 where d: "ensureDir e ?wp st = (r1, st1)" by (cases "ensureDir e ?wp st")
  have c1: "writes_checked e st st1" using ensureDir_checked[of e st ?wp] d by simp
  show ?thesis
  proof (cases r1)
    case (Threw err)
    with d c1 show ?thesis by (simp add: writeEntryScript_def Let_def)
  next
    case (Ok u)
    let ?p = "path_resolve e (?wp @ ''/'' @ scriptName)"
    let ?st2 = "st1\<lparr>outputData := (outputData st1)
                          \<lparr>entry := entry (outputData st1) @
                             [\<lparr>source = template, path = ?p, time = getNowDate e\<rparr>]\<rparr>\<rparr>"
    have "writes_checked e ?st2 (snd (writeFileSafe e ?p script ?st2))"
      by (rule writeFileSafe_checked)
    then have "writes_checked e st1 (snd (writeFileSafe e ?p script ?st2))"
      by (rule writes_checked_from[rotated]) simp
    with c1 have "writes_checked e st (snd (writeFileSafe e ?p script ?st2))"
      by (rule writes_checked_trans)
    with d Ok show ?thesis by (simp add: writeEntryScript_def Let_def)
  qed
qed


lemma renderTemplate_checked:
  assumes "renderTemplate e fuel template pagePath passed st = Some (r, st')"
  shows "writes_checked e st st'"
proof -
  let ?fixed = "fixPath pagePath"
  let ?rd = "spread [(''pagePath'', JStr ?fixed), (''pageName'', JStr template),
                       (''lastPath'', JStr (getEntryScriptName ?fixed)),
                       (''entryScript'',
                          JStr ((if ?fixed = ''/'' then [] else ?fixed @ ''/'') @ getEntryScriptName ?fixed @ ''.js''))] passed"
  from assms obtain r1 st1 where
    rr: "renderRecursive fuel template [] ?rd template None st = Some (r1, st1)"
    by (cases "renderRecursive fuel template [] ?rd template None st")
       (auto simp: renderTemplate_def Let_def)
  from renderRecursive_only_deps[OF rr] have f1: "fs st1 = fs st" by (rule only_deps_fs)
  show ?thesis
  proof (cases r1)
    case (Threw err)
    with rr assms have "st' = st1\<lparr>errorCount := errorCount st1 + 1\<rparr>"
      by (simp add: renderTemplate_def Let_def)
    with f1 show ?thesis by (simp add: writes_checked_same)
  next
    case (Ok x)
    obtain out ws where x: "x = (out, ws)" by (cases x)
    let ?wp = "''./'' @ path_join e [outputDir e, ''/'', ?fixed]"
    obtain r2 st2 where d: "ensureDir e ?wp st1 = (r2, st2)" by (cases "ensureDir e ?wp st1")
    have c2: "writes_checked e st st2"
      using ensureDir_checked[of e st1 ?wp] d f1 by (simp add: writes_checked_def)
    show ?thesis
    proof (cases r2)
      case (Threw err)
      with rr Ok x d assms have "st' = st2\<lparr>errorCount := errorCount st2 + 1\<rparr>"
        by (simp add: renderTemplate_def Let_def)
      with c2 show ?thesis by (simp add: writes_checked_def)
    next
      case (Ok u)
      let ?p = "path_resolve e (?wp @ ''/index.html'')"
      let ?st3 = "st2\<lparr>outputData := (outputData st2)
                                  \<lparr>html := html (outputData st2) @
                                     [\<lparr>source = template, path = ?p, time = getNowDate e\<rparr>]\<rparr>\<rparr>"
      obtain r4 st4 where w: "writeFileSafe e ?p out ?st3 = (r4, st4)"
        by (cases "writeFileSafe e ?p out ?st3")
      have "writes_checked e ?st3 st4" using writeFileSafe_checked[of e ?st3 ?p out] w by simp
      then have "writes_checked e st2 st4" by (simp add: writes_checked_def)
      with c2 have c4: "writes_checked e st st4" by (rule writes_checked_trans)
      from rr \<open>r1 = Ok x\<close> x d Ok w assms have "fs st' = fs st4"
        by (cases r4) (auto simp: renderTemplate_def Let_def)
      with c4 show ?thesis by (simp add: writes_checked_def)
    qed
  qed
qed

lemma writeSiteFiles_checked:
  "writes_checked e st (snd (writeSiteFiles e pageName siteFiles st))"
proof (induction siteFiles arbitrary: st)
  case Nil
  then show ?case by (simp add: writes_checked_same)
next
  case (Cons a siteFiles)
  obtain fname v where a: "a = (fname, v)" by (cases a)
  let ?p = "path_resolve e (''./'' @ path_join e [outputDir e @ ''/'' @ fname])"
  obtain r1 st1 where d: "ensureDir e (path_parse_dir e ?p) st = (r1, st1)"
    by (cases "ensureDir e (path_parse_dir e ?p) st")
  have c1: "writes_checked e st st1" using ensureDir_checked[of e st "path_parse_dir e ?p"] d by simp
  show ?case
  proof (cases r1)
    case (Threw err)
    with a d c1 show ?thesis by (simp add: Let_def)
  next
    case (Ok u)
    let ?st2 = "st1\<lparr>outputData := (outputData st1)
                          \<lparr>json := json (outputData st1) @
                             [\<lparr>source = pageName, path = ?p, time = getNowDate e\<rparr>]\<rparr>\<rparr>"
    let ?wd = "(case v of JStr str \<Rightarrow> str | _ \<Rightarrow> JSON_stringify e v)"
    obtain r3 st3 where w: "writeFileSafe e ?p ?wd ?st2 = (r3, st3)"
      by (cases "writeFileSafe e ?p ?wd ?st2")
    have "writes_checked e ?st2 st3" using writeFileSafe_checked[of e ?st2 ?p ?wd] w by simp
    then have "writes_checked e st1 st3" by (simp add: writes_checked_def)
    with c1 have c3: "writes_checked e st st3" by (rule writes_checked_trans)
    show ?thesis
    proof (cases r3)
      case (Threw err)
      with a d Ok w c3 show ?thesis by (simp add: Let_def)
    next
      case (Ok u')
      from Cons.IH[of st3] c3 have "writes_checked e st (snd (writeSiteFiles e pageName siteFiles st3))"
        by (rule writes_checked_trans[rotated])
      with a d \<open>r1 = Ok u\<close> w Ok show ?thesis by (simp add: Let_def)
    qed
  qed
qed

lemma fold_pathDep_fs:
  "fs (fold (\<lambda>file s. s\<lparr>pathDepTree := f file s\<rparr>) files (st::engine)) = fs st"
  by (induction files arbitrary: st) auto

lemma fold_wildDep_fs:
  "fs (fold (\<lambda>glob s. s\<lparr>wildDepTree := f glob s\<rparr>) globs (st::engine)) = fs st"
  by (induction globs arbitrary: st) auto

lemma processGeneratorResponse_checked:
  "writes_checked e st (snd (processGeneratorResponse e response pageName cacheName st))"
proof (cases response)
  case None
  then show ?thesis by (simp add: processGeneratorResponse_def writes_checked_same)
next
  case (Some r)
  define st1 where "st1 = (case r_cache r of
                        Some c \<Rightarrow> st\<lparr>cache := assign (cache st) cacheName c\<rparr>
                      | None \<Rightarrow> st)"
  define st2 where "st2 = (if truthy (r_outData r)
                      then st1\<lparr>outputData := (outputData st1)
                              \<lparr>outData := assign (outData (outputData st1)) pageName (r_outData r)\<rparr>\<rparr>
                      else st1)"
  have f2: "fs st2 = fs st" by (simp add: st1_def st2_def split: option.splits)
  define w where "w = (case r_siteFiles r of
                      Some siteFiles \<Rightarrow> writeSiteFiles e pageName siteFiles st2
                    | None \<Rightarrow> (Ok (), st2))"
  have "writes_checked e st2 (snd w)"
    unfolding w_def using writeSiteFiles_checked[of e st2 pageName]
    by (cases "r_siteFiles r") (simp_all add: writes_checked_same)
  with f2 have c3: "writes_checked e st (snd w)" by (simp add: writes_checked_def)
  have unf: "processGeneratorResponse e response pageName cacheName st =
     (case w of
        (Threw err, st3) \<Rightarrow> (Threw err, st3)
      | (Ok _, st3) \<Rightarrow>
          (let st4 = (case r_watchFiles r of
                        Some files \<Rightarrow>
                          fold (\<lambda>file s. s\<lparr>pathDepTree :=
                                  add_dep (pathDepTree s) (path_resolve e file) pageName\<rparr>)
                            files st3
                      | None \<Rightarrow> st3);
               st5 = (case r_watchGlobs r of
                        Some globs \<Rightarrow>
                          fold (\<lambda>glob s. s\<lparr>wildDepTree :=
                                  add_dep (wildDepTree s) glob pageName\<rparr>)
                            globs st4
                      | None \<Rightarrow> st4)
           in (Ok (), st5)))"
    unfolding processGeneratorResponse_def Some w_def st2_def st1_def by (simp add: Let_def)
  obtain r3 st3 where w3: "w = (r3, st3)" by (cases w)
  have "fs (snd (processGeneratorResponse e response pageName cacheName st)) = fs st3"
    unfolding unf w3
    by (cases r3) (simp_all add: Let_def fold_pathDep_fs fold_wildDep_fs split: option.splits)
  with c3 w3 show ?thesis by (simp add: writes_checked_def)
qed

lemma processScript_checked:
  "writes_checked e st (snd (processScript e src pageName st))"
proof -
  let ?dir = "outputDir e @ libDir @ ''/'' @ path_parse_dir e pageName"
  obtain r1 st1 where d: "ensureDir e ?dir st = (r1, st1)" by (cases "ensureDir e ?dir st")
  have c1: "writes_checked e st st1" using ensureDir_checked[of e st ?dir] d by simp
  let ?p = "path_resolve e (outputDir e @ libDir @ ''/'' @ pageName @ ''.js'')"
  let ?st2 = "st1\<lparr>outputData := (outputData st1)
                             \<lparr>lib := lib (outputData st1) @
                                [\<lparr>source = pageName, path = ?p, time = getNowDate e\<rparr>]\<rparr>\<rparr>"
  let ?c = "slice_between (length SCRIPT_LIB) (length END_SCRIPT) src"
  obtain r3 st3 where w: "writeFileSafe e ?p ?c ?st2 = (r3, st3)" by (cases "writeFileSafe e ?p ?c ?st2")
  have "writes_checked e ?st2 st3" using writeFileSafe_checked[of e ?st2 ?p ?c] w by simp
  then have "writes_checked e st1 st3" by (simp add: writes_checked_def)
  with c1 have c3: "writes_checked e st st3" by (rule writes_checked_trans)
  have m: "fs (markDependsOn a b (x::engine)) = fs x" for a b x
    by (simp add: markDependsOn_def Let_def)
  show ?thesis
    using d w c1 c3
    by (cases r1; cases r3)
       (auto simp: processScript_def Let_def writes_checked_same m split: option.splits)
qed


subsection \<open>Rendering a page to disk\<close>

lemma writeFileSafe_result:
  "writeFileSafe e p content st = (r, st') \<Longrightarrow>
     (\<exists>err. r = Threw err \<and> st' = st) \<or>
     (r = Ok () \<and> isRelative e (outputDir e) p \<and> st' = st\<lparr>fs := fs st @ [WriteFile p content]\<rparr>)"
  by (auto simp: writeFileSafe_def safeOutputCheck_def split: if_splits)

lemma ensureDir_result:
  "ensureDir e p st = (r, st') \<Longrightarrow>
     (\<exists>calls. st' = st\<lparr>fs := fs st @ calls\<rparr>)"
proof -
  assume a: "ensureDir e p st = (r, st')"
  have "st' = st\<lparr>fs := fs st @ []\<rparr> \<or> st' = st\<lparr>fs := fs st @ [MkdirSync p]\<rparr>"
    using a by (auto simp: ensureDir_def mkdirSyncSafe_def safeOutputCheck_def split: if_splits)
  then show ?thesis by blast
qed


lemma renderTemplate_Ok:
  assumes "renderTemplate e fuel template pagePath passed st = Some (Ok fixed, st')"
  shows "fixed = fixPath pagePath \<and> errorCount st' = errorCount st \<and>
     html (outputData st') = html (outputData st)
        @ [\<lparr>source = template, path = page_file e pagePath, time = getNowDate e\<rparr>] \<and>
     isRelative e (outputDir e) (page_file e pagePath) \<and>
     (\<exists>calls out. fs st' = fs st @ calls @ [WriteFile (page_file e pagePath) out])"
proof -
  let ?fixed = "fixPath pagePath"
  let ?rd = "spread [(''pagePath'', JStr ?fixed), (''pageName'', JStr template),
                       (''lastPath'', JStr (getEntryScriptName ?fixed)),
                       (''entryScript'',
                          JStr ((if ?fixed = ''/'' then [] else ?fixed @ ''/'') @ getEntryScriptName ?fixed @ ''.js''))] passed"
  from assms obtain r1 st1 where
    rr: "renderRecursive fuel template [] ?rd template None st = Some (r1, st1)"
    by (cases "renderRecursive fuel template [] ?rd template None st")
       (auto simp: renderTemplate_def Let_def)
  note od = renderRecursive_only_deps[OF rr]
  have f1: "errorCount st1 = errorCount st" "fs st1 = fs st" "outputData st1 = outputData st"
    using od by (rule only_deps_fs)+
  from rr assms obtain x where r1: "r1 = Ok x"
    by (cases r1) (auto simp: renderTemplate_def Let_def)
  obtain out ws where x: "x = (out, ws)" by (cases x)
  let ?wp = "''./'' @ path_join e [outputDir e, ''/'', ?fixed]"
  obtain r2 st2 where d: "ensureDir e ?wp st1 = (r2, st2)" by (cases "ensureDir e ?wp st1")
  from ensureDir_result[OF d] obtain calls where st2: "st2 = st1\<lparr>fs := fs st1 @ calls\<rparr>" by blast
  from rr r1 x d assms obtain u where r2: "r2 = Ok u"
    by (cases r2) (auto simp: renderTemplate_def Let_def)
  let ?p = "path_resolve e (?wp @ ''/index.html'')"
  have p: "?p = page_file e pagePath" by (simp add: page_file_def)
  let ?st3 = "st2\<lparr>outputData := (outputData st2)
                                  \<lparr>html := html (outputData st2) @
                                     [\<lparr>source = template, path = ?p, time = getNowDate e\<rparr>]\<rparr>\<rparr>"
  obtain r4 st4 where w: "writeFileSafe e ?p out ?st3 = (r4, st4)"
    by (cases "writeFileSafe e ?p out ?st3")
  from rr r1 x d r2 w assms have r4: "r4 = Ok ()" and e4: "st' = st4" and fx: "fixed = ?fixed"
    by (cases r4; auto simp: renderTemplate_def Let_def)+
  from writeFileSafe_result[OF w] r4 have rel: "isRelative e (outputDir e) ?p"
    and st4: "st4 = ?st3\<lparr>fs := fs ?st3 @ [WriteFile ?p out]\<rparr>" by auto
  have "errorCount st' = errorCount st" using e4 st4 st2 f1 by simp
  moreover have "html (outputData st') = html (outputData st)
        @ [\<lparr>source = template, path = page_file e pagePath, time = getNowDate e\<rparr>]"
    using e4 st4 st2 f1 p by simp
  moreover have "fs st' = fs st @ calls @ [WriteFile (page_file e pagePath) out]"
    using e4 st4 st2 f1 p by simp
  ultimately show ?thesis using fx rel p by auto
qed


lemma settle_frame [simp]:
  "errorCount (settle st) = errorCount st" "outputData (settle st) = outputData st"
  "fs (settle st) = fs st"
  by (simp_all add: settle_def Let_def)







subsection \<open>What a render leaves alone\<close>

lemma render_frame_refl [simp]: "render_frame st st"
  by (simp add: render_frame_def)



lemma render_frame_updates [simp]:
  "render_frame st (st\<lparr>fs := x1\<rparr>)"
  "render_frame st (st\<lparr>errorCount := x2\<rparr>)"
  "render_frame st (st\<lparr>outputData := x3\<rparr>)"
  "render_frame st (st\<lparr>toRender := x4\<rparr>)"
  "render_frame st (st\<lparr>resolved := x5\<rparr>)"
  "render_frame st (st\<lparr>templateDepTree := x6\<rparr>)"
  by (simp_all add: render_frame_def)

lemma render_frame_settle [simp]: "render_frame st (settle st)"
  by (simp add: render_frame_def settle_def Let_def)









subsection \<open>Renders that succeed\<close>











subsection \<open>Batch requests\<close>








subsection \<open>Steps that keep the pages\<close>

lemma keeps_pages_refl [simp]: "keeps_pages st st"
  by (simp add: keeps_pages_def)



lemma keeps_pages_fs_update [simp]: "keeps_pages st (st\<lparr>fs := fs st @ calls\<rparr>)"
  by (simp add: keeps_pages_def)









subsection \<open>Calls that leave the request as it is\<close>

lemma quiet_frame_refl [simp]: "quiet_frame st st"
  by (simp add: quiet_frame_def)



lemma quiet_frame_updates [simp]:
  "quiet_frame st (st\<lparr>globalDeps := x1\<rparr>)"
  "quiet_frame st (settle st)"
  by (simp_all add: quiet_frame_def settle_def Let_def)








lemma registerCallbacks_fields [simp]:
  "errorCount (registerCallbacks p st) = errorCount st"
  "outputData (registerCallbacks p st) = outputData st"
  "fs (registerCallbacks p st) = fs st"
  "toRender (registerCallbacks p st) = toRender st"
  by (cases p; simp add: registerCallbacks_def)+



subsection \<open>A script that resolves\<close>






subsection \<open>Wildcard-count violations\<close>






subsection \<open>A script that rejects\<close>

text \<open>
  \<^bold>\<open>Claim C4\<close> says that a failure signalled by \<^verbatim>\<open>reject\<close> increments the error counter, as a
  thrown error does. \<^verbatim>\<open>generateError\<close> only calls \<^verbatim>\<open>chalkUpError\<close> and \<^verbatim>\<open>checkDone\<close>; the counter
  is incremented in the \<^verbatim>\<open>catch\<close> around the run of the script, which a call of \<^verbatim>\<open>reject\<close> does
  not reach. In the run below the script of \<^verbatim>\<open>about\<close> calls \<^verbatim>\<open>reject(new Error("boom"))\<close>: the
  run completes, the other page is written, and the error count is \<open>0\<close>; when the script throws
  the same error instead, the count is \<open>1\<close>.
\<close>

theorem reject_not_counted:
  "(case generatePages (example_env (\<lambda>c. [Reject (mkError ''boom'')])) 3 aboutSite of
      Some (r, st') \<Rightarrow>
        r = Ok () \<and> errorCount st' = 0 \<and> map source (html (outputData st')) = [''home''] \<and>
        resolved st' = 1
    | None \<Rightarrow> False) \<and>
   (case generatePages (example_env (\<lambda>c. [Throw (mkError ''boom'')])) 3 aboutSite of
      Some (r, st') \<Rightarrow>
        r = Ok () \<and> errorCount st' = 1 \<and> map source (html (outputData st')) = [''home''] \<and>
        resolved st' = 1
    | None \<Rightarrow> False)"
  by code_simp


subsection \<open>Every write is checked\<close>

lemma writeFileSafe_escapes:
  "\<not> isRelative e (outputDir e) p \<Longrightarrow>
   writeFileSafe e p content st
     = (Threw (mkError (''Trying to write '' @ p @ '' which is outside of '' @ outputDir e)), st)"
  by (simp add: writeFileSafe_def safeOutputCheck_def)

lemma mkdirSyncSafe_escapes:
  "\<not> isRelative e (outputDir e) p \<Longrightarrow>
   mkdirSyncSafe e p st
     = (Threw (mkError (''Trying to write '' @ p @ '' which is outside of '' @ outputDir e)), st)"
  by (simp add: mkdirSyncSafe_def safeOutputCheck_def)

text \<open>
  \<^bold>\<open>Claim C1\<close>: the four operations that write output (\<^verbatim>\<open>renderTemplate\<close> for a page,
  \<^verbatim>\<open>writeEntryScript\<close>, \<^verbatim>\<open>processScript\<close> for a lib block, \<^verbatim>\<open>processGeneratorResponse\<close> for
  site files) only add file-system calls that passed the containment check against the output
  directory, whether they return or throw; a page whose render returns was written inside the
  output directory; and a write or a directory creation on a path that is not inside it throws
  with the file system, and the whole state, untouched.
\<close>

theorem output_writes_checked:
  "(\<forall>r st'. renderTemplate e fuel template pagePath passed st = Some (r, st') \<longrightarrow>
       writes_checked e st st') \<and>
   (\<forall>fixed st'. renderTemplate e fuel template pagePath passed st = Some (Ok fixed, st') \<longrightarrow>
       isRelative e (outputDir e) (page_file e pagePath)) \<and>
   writes_checked e st (snd (writeEntryScript e template script pagePath scriptName st)) \<and>
   writes_checked e st (snd (processScript e src pageName st)) \<and>
   writes_checked e st (snd (processGeneratorResponse e response pageName cacheName st)) \<and>
   (\<not> isRelative e (outputDir e) p \<longrightarrow>
      writeFileSafe e p content st
        = (Threw (mkError (''Trying to write '' @ p @ '' which is outside of '' @ outputDir e)), st) \<and>
      mkdirSyncSafe e p st
        = (Threw (mkError (''Trying to write '' @ p @ '' which is outside of '' @ outputDir e)), st))"
proof (intro conjI allI impI)
  fix r st'
  assume "renderTemplate e fuel template pagePath passed st = Some (r, st')"
  then show "writes_checked e st st'" by (rule renderTemplate_checked)
next
  fix fixed st'
  assume "renderTemplate e fuel template pagePath passed st = Some (Ok fixed, st')"
  from renderTemplate_Ok[OF this] show "isRelative e (outputDir e) (page_file e pagePath)" by simp
next
  show "writes_checked e st (snd (writeEntryScript e template script pagePath scriptName st))"
    by (rule writeEntryScript_checked)
next
  show "writes_checked e st (snd (processScript e src pageName st))"
    by (rule processScript_checked)
next
  show "writes_checked e st (snd (processGeneratorResponse e response pageName cacheName st))"
    by (rule processGeneratorResponse_checked)
next
  assume "\<not> isRelative e (outputDir e) p"
  then show "writeFileSafe e p content st
        = (Threw (mkError (''Trying to write '' @ p @ '' which is outside of '' @ outputDir e)), st)"
    by (rule writeFileSafe_escapes)
next
  assume "\<not> isRelative e (outputDir e) p"
  then show "mkdirSyncSafe e p st
        = (Threw (mkError (''Trying to write '' @ p @ '' which is outside of '' @ outputDir e)), st)"
    by (rule mkdirSyncSafe_escapes)
qed

theorem output_writes_checked_witness:
  "(case renderTemplate (example_env (\<lambda>c. [])) 3 ''home'' ''home'' [] aboutSite of
      Some (r, st') \<Rightarrow>
        r = Ok ''home'' \<and>
        fs st' = [MkdirSync ''./out/home'', WriteFile ''/site/out/home/index.html'' ''Welcome''] \<and>
        writes_checked (example_env (\<lambda>c. [])) aboutSite st'
    | None \<Rightarrow> False) \<and>
   fs (snd (processGeneratorResponse (example_env (\<lambda>c. []))
              (Some \<lparr>r_cache = None, r_siteFiles = Some [(''data.json'', JStr ''{}'')],
                     r_watchFiles = None, r_watchGlobs = None, r_outData = JUndefined,
                     r_global = None\<rparr>) ''about'' ''shared'' aboutSite))
     = [MkdirSync ''/site/out'', WriteFile ''/site/out/data.json'' ''{}''] \<and>
   writes_checked (example_env (\<lambda>c. [])) aboutSite
     (snd (processGeneratorResponse (example_env (\<lambda>c. []))
              (Some \<lparr>r_cache = None, r_siteFiles = Some [(''data.json'', JStr ''{}'')],
                     r_watchFiles = None, r_watchGlobs = None, r_outData = JUndefined,
                     r_global = None\<rparr>) ''about'' ''shared'' aboutSite)) \<and>
   \<not> isRelative (example_env (\<lambda>c. [])) (outputDir (example_env (\<lambda>c. []))) ''/etc/passwd'' \<and>
   writeFileSafe (example_env (\<lambda>c. [])) ''/etc/passwd'' ''x'' aboutSite
     = (Threw (mkError ''Trying to write /etc/passwd which is outside of out''), aboutSite)"
proof -
  let ?e = "example_env (\<lambda>c. [])"
  let ?resp = "Some \<lparr>r_cache = None, r_siteFiles = Some [(''data.json'', JStr ''{}'')],
                     r_watchFiles = None, r_watchGlobs = None, r_outData = JUndefined,
                     r_global = None\<rparr>"
  have ev: "(case renderTemplate ?e 3 ''home'' ''home'' [] aboutSite of
      Some (r, st') \<Rightarrow>
        r = Ok ''home'' \<and>
        fs st' = [MkdirSync ''./out/home'', WriteFile ''/site/out/home/index.html'' ''Welcome'']
    | None \<Rightarrow> False)"
    by code_simp
  then obtain r st' where run: "renderTemplate ?e 3 ''home'' ''home'' [] aboutSite = Some (r, st')"
    and r: "r = Ok ''home''"
    and fs: "fs st' = [MkdirSync ''./out/home'', WriteFile ''/site/out/home/index.html'' ''Welcome'']"
    by (auto split: option.splits)
  have sf: "fs (snd (processGeneratorResponse ?e ?resp ''about'' ''shared'' aboutSite))
     = [MkdirSync ''/site/out'', WriteFile ''/site/out/data.json'' ''{}'']"
    by code_simp
  have nr: "\<not> isRelative ?e (outputDir ?e) ''/etc/passwd''" by code_simp
  have od: "outputDir ?e = ''out''" by (simp add: example_env_def)
  note t = output_writes_checked [where e = ?e and fuel = 3 and template = "''home''"
      and pagePath = "''home''" and passed = "[]" and st = aboutSite and response = ?resp
      and pageName = "''about''" and cacheName = "''shared''" and p = "''/etc/passwd''"
      and content = "''x''"]
  from t run have wc: "writes_checked ?e aboutSite st'" by blast
  from t have wr: "writes_checked ?e aboutSite
     (snd (processGeneratorResponse ?e ?resp ''about'' ''shared'' aboutSite))" by blast
  from t nr have "writeFileSafe ?e ''/etc/passwd'' ''x'' aboutSite
     = (Threw (mkError (''Trying to write '' @ ''/etc/passwd'' @ '' which is outside of '' @ outputDir ?e)), aboutSite)"
    by blast
  then have wf: "writeFileSafe ?e ''/etc/passwd'' ''x'' aboutSite
     = (Threw (mkError ''Trying to write /etc/passwd which is outside of out''), aboutSite)"
    by (simp add: od)
  from run r fs wc sf wr nr wf show ?thesis by simp
qed

end
